theory Spec2Isabelle
  imports Complex_Main "HOL-Library.Sublist"
begin

section \<open>Exceptions\<close>

text \<open>
  Every exception of the Python source that a modelled function can raise is a value of
  \<open>exn\<close>; a fallible function returns \<open>exn + 'a\<close> with \<open>Inl\<close> for the raise.
  \<open>IntegrityError\<close> and \<open>MultipleResultsFound\<close> are SQLAlchemy's (a second row with
  the same primary key, \<open>scalar_one_or_none\<close> on more than one row); \<open>ExternalFailure\<close>
  stands for any exception of an outside service (file system, embedding provider,
  vector store).
\<close>

datatype exn =
    ValueError
  | IndexError
  | TypeError
  | IntegrityError
  | MultipleResultsFound
  | ExternalFailure

section \<open>StatusStore: \<open>databases/file\<close>\<close>

datatype FileStatusEnum = PENDING | MODIFIED | SYNCED | DELETED | ERROR

text \<open>
  The ORM class \<open>FileStatus\<close> with its four columns \<open>id\<close>, \<open>name\<close>, \<open>path\<close>,
  \<open>status\<close> (prefixed here, since \<open>id\<close> is a constant of HOL). The table
  \<open>file_status\<close> is the list of its rows in insertion order; \<open>id\<close> is the primary key.
\<close>

record FileStatus =
  fs_id :: string
  fs_name :: string
  fs_path :: string
  fs_status :: FileStatusEnum

type_synonym status_store = "FileStatus list"

text \<open>\<open>Result.scalar_one_or_none()\<close>: no row, the one row, or \<open>MultipleResultsFound\<close>.\<close>

fun scalar_one_or_none :: "'a list \<Rightarrow> exn + 'a option" where
  "scalar_one_or_none [] = Inr None"
| "scalar_one_or_none [r] = Inr (Some r)"
| "scalar_one_or_none (r # r' # rs) = Inl MultipleResultsFound"

text \<open>\<open>str.split(sep)\<close> for a one-character separator: never the empty list.\<close>

fun split :: "char \<Rightarrow> string \<Rightarrow> string list" where
  "split sep [] = [[]]"
| "split sep (c # cs) =
     (if c = sep then [] # split sep cs
      else (case split sep cs of
              [] \<Rightarrow> [[c]]
            | w # ws \<Rightarrow> (c # w) # ws))"

text \<open>\<open>os.path.basename\<close> (posixpath): the text after the last \<open>/\<close>.\<close>

definition basename :: "string \<Rightarrow> string" where
  "basename p = rev (takeWhile (\<lambda>c. c \<noteq> CHR ''/'') (rev p))"

definition create_file_status :: "status_store \<Rightarrow> FileStatus \<Rightarrow> exn + status_store" where
  "create_file_status db file_status =
     (if fs_id file_status \<in> set (map fs_id db) then Inl IntegrityError
      else Inr (db @ [\<lparr>fs_id = fs_id file_status, fs_name = fs_name file_status,
                       fs_path = fs_path file_status, fs_status = fs_status file_status\<rparr>]))"

definition get_file_status :: "status_store \<Rightarrow> string \<Rightarrow> exn + FileStatus option" where
  "get_file_status db file_id = scalar_one_or_none (filter (\<lambda>r. fs_id r = file_id) db)"

definition update_file_status :: "status_store \<Rightarrow> string \<Rightarrow> FileStatusEnum \<Rightarrow> status_store" where
  "update_file_status db file_id new_status =
     map (\<lambda>r. if fs_id r = file_id then r\<lparr>fs_status := new_status\<rparr> else r) db"

definition delete_file_status :: "status_store \<Rightarrow> string \<Rightarrow> status_store" where
  "delete_file_status db file_id = filter (\<lambda>r. fs_id r \<noteq> file_id) db"

text \<open>\<open>status_updates\<close> is a dict: its items in iteration order, keys distinct.\<close>

fun bulk_update_file_statuses ::
  "status_store \<Rightarrow> (string \<times> FileStatusEnum) list \<Rightarrow> status_store" where
  "bulk_update_file_statuses db [] = db"
| "bulk_update_file_statuses db ((file_id, new_status) # status_updates) =
     bulk_update_file_statuses (update_file_status db file_id new_status) status_updates"

definition bulk_delete_file_statuses :: "status_store \<Rightarrow> string list \<Rightarrow> status_store" where
  "bulk_delete_file_statuses db file_ids = filter (\<lambda>r. fs_id r \<notin> set file_ids) db"

definition get_file_status_by_path :: "status_store \<Rightarrow> string \<Rightarrow> exn + FileStatus option" where
  "get_file_status_by_path db file_path =
     scalar_one_or_none (filter (\<lambda>r. fs_path r = file_path) db)"

definition rename_file_status :: "status_store \<Rightarrow> string \<Rightarrow> string \<Rightarrow> status_store" where
  "rename_file_status db old_path new_path =
     map (\<lambda>r. if fs_path r = old_path
               then r\<lparr>fs_path := new_path, fs_name := last (split (CHR ''/'') new_path)\<rparr>
               else r) db"

definition delete_file_statuses_by_status :: "status_store \<Rightarrow> FileStatusEnum \<Rightarrow> status_store" where
  "delete_file_statuses_by_status db status = filter (\<lambda>r. fs_status r \<noteq> status) db"

definition get_or_create_file_status :: "status_store \<Rightarrow> FileStatus \<Rightarrow> exn + status_store" where
  "get_or_create_file_status db file_status =
     (case get_file_status db (fs_id file_status) of
        Inl e \<Rightarrow> Inl e
      | Inr (Some existing) \<Rightarrow> Inr db
      | Inr None \<Rightarrow> create_file_status db file_status)"

definition update_file_status_name :: "status_store \<Rightarrow> string \<Rightarrow> string \<Rightarrow> status_store" where
  "update_file_status_name db file_id new_name =
     map (\<lambda>r. if fs_id r = file_id then r\<lparr>fs_name := new_name\<rparr> else r) db"

section \<open>The watch path: \<open>core/monitor/handler.py\<close>\<close>

text \<open>
  A watchdog event as the handler reads it. Each \<open>on_\<close> method schedules one
  coroutine (on the captured loop, or with \<open>asyncio.run\<close>); the model runs the
  coroutine to its end on the store before the next one starts. The result
  \<open>Inl e\<close> says that the coroutine raised \<open>e\<close> before any commit, so the store is
  the one it was called with; \<open>Inr db\<close> is the store after the commit.
  \<open>on_created\<close> takes the value of \<open>uuid4().hex\<close> as its second argument.
\<close>

record event =
  is_directory :: bool
  src_path :: string
  dest_path :: string

definition create_file_status_async :: "FileStatus \<Rightarrow> status_store \<Rightarrow> exn + status_store" where
  "create_file_status_async file_status db = create_file_status db file_status"

definition update_file_status_async ::
  "string \<Rightarrow> FileStatusEnum \<Rightarrow> status_store \<Rightarrow> exn + status_store" where
  "update_file_status_async file_path new_status db =
     (case get_file_status_by_path db file_path of
        Inl e \<Rightarrow> Inl e
      | Inr None \<Rightarrow> Inr db
      | Inr (Some existing) \<Rightarrow> Inr (update_file_status db (fs_id existing) new_status))"

definition delete_file_status_async :: "string \<Rightarrow> status_store \<Rightarrow> exn + status_store" where
  "delete_file_status_async file_path db =
     (case get_file_status_by_path db file_path of
        Inl e \<Rightarrow> Inl e
      | Inr None \<Rightarrow> Inr db
      | Inr (Some existing) \<Rightarrow> Inr (delete_file_status db (fs_id existing)))"

definition rename_file_status_async :: "string \<Rightarrow> string \<Rightarrow> status_store \<Rightarrow> exn + status_store" where
  "rename_file_status_async old_path new_path db = Inr (rename_file_status db old_path new_path)"

definition on_created :: "event \<Rightarrow> string \<Rightarrow> status_store \<Rightarrow> exn + status_store" where
  "on_created ev uuid db =
     (if \<not> is_directory ev
      then create_file_status_async
             \<lparr>fs_id = uuid, fs_name = basename (src_path ev),
              fs_path = src_path ev, fs_status = PENDING\<rparr> db
      else Inr db)"

definition on_modified :: "event \<Rightarrow> status_store \<Rightarrow> exn + status_store" where
  "on_modified ev db =
     (if \<not> is_directory ev then update_file_status_async (src_path ev) MODIFIED db
      else Inr db)"

definition on_deleted :: "event \<Rightarrow> status_store \<Rightarrow> exn + status_store" where
  "on_deleted ev db =
     (if \<not> is_directory ev then delete_file_status_async (src_path ev) db
      else Inr db)"

definition on_moved :: "event \<Rightarrow> status_store \<Rightarrow> exn + status_store" where
  "on_moved ev db =
     (if \<not> is_directory ev then rename_file_status_async (src_path ev) (dest_path ev) db
      else Inr db)"

text \<open>
  Every operation that writes the store: the mutating functions of \<open>crud.py\<close> and the
  four handler methods. The indexing API writes through \<open>update_file_status\<close> only.
\<close>

datatype store_op =
    CreateFileStatus FileStatus
  | UpdateFileStatus string FileStatusEnum
  | DeleteFileStatus string
  | BulkUpdateFileStatuses "(string \<times> FileStatusEnum) list"
  | BulkDeleteFileStatuses "string list"
  | RenameFileStatus string string
  | DeleteFileStatusesByStatus FileStatusEnum
  | GetOrCreateFileStatus FileStatus
  | UpdateFileStatusName string string
  | OnCreated event string
  | OnModified event
  | OnDeleted event
  | OnMoved event

fun apply_op :: "store_op \<Rightarrow> status_store \<Rightarrow> exn + status_store" where
  "apply_op (CreateFileStatus r) db = create_file_status db r"
| "apply_op (UpdateFileStatus i s) db = Inr (update_file_status db i s)"
| "apply_op (DeleteFileStatus i) db = Inr (delete_file_status db i)"
| "apply_op (BulkUpdateFileStatuses us) db = Inr (bulk_update_file_statuses db us)"
| "apply_op (BulkDeleteFileStatuses is) db = Inr (bulk_delete_file_statuses db is)"
| "apply_op (RenameFileStatus p q) db = Inr (rename_file_status db p q)"
| "apply_op (DeleteFileStatusesByStatus s) db = Inr (delete_file_statuses_by_status db s)"
| "apply_op (GetOrCreateFileStatus r) db = get_or_create_file_status db r"
| "apply_op (UpdateFileStatusName i n) db = Inr (update_file_status_name db i n)"
| "apply_op (OnCreated ev uuid) db = on_created ev uuid db"
| "apply_op (OnModified ev) db = on_modified ev db"
| "apply_op (OnDeleted ev) db = on_deleted ev db"
| "apply_op (OnMoved ev) db = on_moved ev db"

text \<open>
  The ids an operation may insert, and whether it only updates rows in place.
\<close>

fun inserted_ids :: "store_op \<Rightarrow> string list" where
  "inserted_ids (CreateFileStatus r) = [fs_id r]"
| "inserted_ids (GetOrCreateFileStatus r) = [fs_id r]"
| "inserted_ids (OnCreated ev uuid) = [uuid]"
| "inserted_ids _ = []"

text \<open>
  A record is live when its status is not \<open>DELETED\<close>; the invariant of the
  specification, "at most one live record per path", as a check of the table.
\<close>

definition live :: "FileStatus \<Rightarrow> bool" where
  "live r \<longleftrightarrow> fs_status r \<noteq> DELETED"

definition one_live_per_path :: "status_store \<Rightarrow> bool" where
  "one_live_per_path db \<longleftrightarrow> distinct (map fs_path (filter live db))"

text \<open>The operations that are a single \<open>UPDATE\<close> statement (or a loop of them).\<close>

fun in_place :: "store_op \<Rightarrow> bool" where
  "in_place (UpdateFileStatus i s) = True"
| "in_place (BulkUpdateFileStatuses us) = True"
| "in_place (RenameFileStatus p q) = True"
| "in_place (UpdateFileStatusName i n) = True"
| "in_place (OnModified ev) = True"
| "in_place (OnMoved ev) = True"
| "in_place _ = False"

section \<open>The indexing pipeline: \<open>core/indexing/index.py\<close>\<close>

definition CHUNK_SIZE :: int where
  "CHUNK_SIZE = 1000"

definition CHUNK_OVERLAP :: int where
  "CHUNK_OVERLAP = 200"

subsection \<open>Python's \<open>range\<close> and slices\<close>

text \<open>
  The values of \<open>range(i, n, step)\<close> for the loops of \<open>chunk_text\<close>, which start at
  \<open>0\<close> and stop at a length: with a negative step such a range is empty, and a step
  of \<open>0\<close> raises \<open>ValueError\<close>.
\<close>

function range_from :: "int \<Rightarrow> int \<Rightarrow> int \<Rightarrow> int list" where
  "range_from i n step = (if 0 < step \<and> i < n then i # range_from (i + step) n step else [])"
  by pat_completeness auto
termination
  by (relation "measure (\<lambda>(i, n, step). nat (n - i))") auto

declare range_from.simps [simp del]

definition py_range :: "int \<Rightarrow> int \<Rightarrow> exn + int list" where
  "py_range n step = (if step = 0 then Inl ValueError else Inr (range_from 0 n step))"

text \<open>
  \<open>xs[i:j]\<close>: a negative bound counts from the end, and both bounds are clipped to the
  list.
\<close>

definition slice :: "'a list \<Rightarrow> int \<Rightarrow> int \<Rightarrow> 'a list" where
  "slice xs i j =
     (let n = int (length xs);
          lo = (if i < 0 then max 0 (i + n) else min i n);
          hi = (if j < 0 then max 0 (j + n) else min j n)
      in take (nat (hi - lo)) (drop (nat lo) xs))"

subsection \<open>\<open>chunk_text\<close>\<close>

text \<open>
  \<open>tiktoken\<close> is \<open>None\<close> when the import fails (the character-based fallback), and
  otherwise the encoding's \<open>encode\<close> (which can raise) and \<open>decode\<close>. A text is a
  list of characters and its length the number of them.
\<close>

type_synonym tokenizer = "(string \<Rightarrow> exn + int list) \<times> (int list \<Rightarrow> string)"

definition chunk_text :: "tokenizer option \<Rightarrow> string \<Rightarrow> int \<Rightarrow> int \<Rightarrow> exn + string list" where
  "chunk_text tiktoken content chunk_size overlap =
     (case tiktoken of
        None \<Rightarrow>
          (case py_range (int (length content)) (chunk_size - overlap) of
             Inl e \<Rightarrow> Inl e
           | Inr starts \<Rightarrow> Inr (map (\<lambda>i. slice content i (i + chunk_size)) starts))
      | Some (encode, decode) \<Rightarrow>
          (case encode content of
             Inl e \<Rightarrow> Inl e
           | Inr tokens \<Rightarrow>
               (case py_range (int (length tokens)) (chunk_size - overlap) of
                  Inl e \<Rightarrow> Inl e
                | Inr starts \<Rightarrow>
                    Inr (map (\<lambda>i. decode (slice tokens i (i + chunk_size))) starts))))"

text \<open>
  The text positions a window covers when it starts at \<open>start\<close>, and the number of
  positions two windows share.
\<close>

definition window_positions :: "nat \<Rightarrow> 'a list \<Rightarrow> nat set" where
  "window_positions start w = {start ..< start + length w}"

definition overlap_units :: "nat \<Rightarrow> 'a list \<Rightarrow> nat \<Rightarrow> 'a list \<Rightarrow> nat" where
  "overlap_units s1 w1 s2 w2 = card (window_positions s1 w1 \<inter> window_positions s2 w2)"

subsection \<open>\<open>read_file_content\<close>\<close>

text \<open>
  What the file system holds at a path: nothing, a file that \<open>open\<close> or \<open>read\<close>
  fails on, or a file with its decoded content.
\<close>

datatype file_entry = Missing | Unreadable | Content string

text \<open>\<open>str.rfind\<close> for a character: the index of its last occurrence, or \<open>-1\<close>.\<close>

definition rfind :: "char \<Rightarrow> string \<Rightarrow> int" where
  "rfind c s =
     (if c \<in> set s then int (length s) - 1 - int (length (takeWhile (\<lambda>x. x \<noteq> c) (rev s)))
      else - 1)"

text \<open>
  \<open>Path(file_path)\<close> on POSIX, as \<open>pathlib\<close> parses it (CPython 3.8 to 3.12). The
  root is \<open>//\<close> for exactly two leading slashes and \<open>/\<close> for any other number of
  them; the parts are the components between the slashes, without the empty ones and
  without those that are a single dot. \<open>str(path)\<close> joins root and parts again and is
  \<open>.\<close> when nothing is left: it is the name that \<open>exists\<close> and \<open>open\<close> hand to the
  file system. \<open>name\<close> is the last part, or empty when there is none.
\<close>

definition path_root :: "string \<Rightarrow> string" where
  "path_root p =
     (let n = length (takeWhile (\<lambda>c. c = CHR ''/'') p)
      in if n = 0 then [] else if n = 2 then ''//'' else ''/'')"

definition path_parts :: "string \<Rightarrow> string list" where
  "path_parts p = filter (\<lambda>x. x \<noteq> [] \<and> x \<noteq> ''.'') (split (CHR ''/'') p)"

text \<open>\<open>sep.join(parts)\<close>.\<close>

fun join :: "string \<Rightarrow> string list \<Rightarrow> string" where
  "join sep [] = []"
| "join sep [x] = x"
| "join sep (x # y # ys) = x @ sep @ join sep (y # ys)"

definition path_str :: "string \<Rightarrow> string" where
  "path_str p =
     (let s = path_root p @ join ''/'' (path_parts p) in if s = [] then ''.'' else s)"

definition path_name :: "string \<Rightarrow> string" where
  "path_name p = (if path_parts p = [] then [] else last (path_parts p))"

text \<open>
  \<open>PurePath.suffix\<close>: the part of the name from its last dot, unless that dot is the
  first or the last character of the name.
\<close>

definition suffix :: "string \<Rightarrow> string" where
  "suffix p =
     (let name = path_name p; i = rfind (CHR ''.'') name
      in if 0 < i \<and> i < int (length name) - 1 then drop (nat i) name else [])"

text \<open>\<open>str.lower\<close> on the letters \<open>A\<close> to \<open>Z\<close>.\<close>

definition lower :: "string \<Rightarrow> string" where
  "lower s =
     map (\<lambda>c. case map_of (zip ''ABCDEFGHIJKLMNOPQRSTUVWXYZ'' ''abcdefghijklmnopqrstuvwxyz'') c of
                None \<Rightarrow> c
              | Some l \<Rightarrow> l) s"

text \<open>
  \<open>read_file_content\<close>: the existence test, then the test of the extension, then the
  read; every exception ends in \<open>return None\<close>.
\<close>

definition read_file_content :: "(string \<Rightarrow> file_entry) \<Rightarrow> string \<Rightarrow> string option" where
  "read_file_content files file_path =
     (let path = path_str file_path
      in if files path = Missing then None
         else if lower (suffix file_path) \<in>
                   set [''.md'', ''.txt'', ''.py'', ''.js'', ''.ts'', ''.json'', ''.yaml'',
                        ''.yml'', ''.csv'']
         then (case files path of Content c \<Rightarrow> Some c | _ \<Rightarrow> None)
         else None)"

subsection \<open>The outside services\<close>

text \<open>
  A row of the LanceDB table \<open>obsidirag_index\<close> (the schema of \<open>index_file\<close>), with
  vectors and distances as real numbers.
\<close>

record chunk_row =
  row_vector :: "real list"
  row_text :: string
  row_file_id :: string
  row_file_path :: string
  row_chunk_index :: int

text \<open>
  The services the module calls are parameters of the model: the file system, the
  tokenizer, the embedding provider (\<open>client.embeddings.create\<close>, which may answer
  differently from one call to the next and so takes the number of calls made before
  it) and the three table operations of LanceDB, each applied to the rows the table holds
  and each allowed to raise. \<open>table_delete\<close> takes whether the predicate is passed
  as the keyword \<open>where\<close>, and the predicate.
\<close>

record env =
  files :: "string \<Rightarrow> file_entry"
  tiktoken :: "tokenizer option"
  embeddings_create :: "nat \<Rightarrow> string list \<Rightarrow> exn + real list list"
  table_add :: "chunk_row list \<Rightarrow> chunk_row list \<Rightarrow> exn + chunk_row list"
  table_search :: "real list \<Rightarrow> int \<Rightarrow> chunk_row list \<Rightarrow> exn + (chunk_row \<times> real) list"
  table_delete :: "bool \<Rightarrow> string \<Rightarrow> chunk_row list \<Rightarrow> exn + chunk_row list"

text \<open>
  What the module changes outside itself: the table (\<open>None\<close> while it does not
  exist) and the number of calls made to the embedding provider.
\<close>

record world =
  table :: "chunk_row list option"
  calls :: nat

subsection \<open>\<open>create_embeddings\<close>, \<open>index_file\<close>, \<open>index_files\<close>\<close>

text \<open>\<open>create_embeddings\<close> logs and re-raises whatever the provider raises.\<close>

definition create_embeddings :: "env \<Rightarrow> string list \<Rightarrow> world \<Rightarrow> (exn + real list list) \<times> world" where
  "create_embeddings env texts w =
     (embeddings_create env (calls w) texts, w\<lparr>calls := Suc (calls w)\<rparr>)"

text \<open>
  \<open>index_file\<close>: the whole body is inside \<open>try\<close>, and \<open>except Exception\<close> returns
  \<open>False\<close>. When the table is absent it is created empty before the rows are added,
  so it exists afterwards even if the addition fails.
\<close>

definition index_file :: "env \<Rightarrow> string \<Rightarrow> string \<Rightarrow> world \<Rightarrow> bool \<times> world" where
  "index_file env file_path file_id w =
     (case read_file_content (files env) file_path of
        None \<Rightarrow> (False, w)
      | Some content \<Rightarrow>
          if content = [] then (False, w)
          else
            (case chunk_text (tiktoken env) content CHUNK_SIZE CHUNK_OVERLAP of
               Inl e \<Rightarrow> (False, w)
             | Inr chunks \<Rightarrow>
                 if chunks = [] then (False, w)
                 else
                   (case create_embeddings env chunks w of
                      (Inl e, w1) \<Rightarrow> (False, w1)
                    | (Inr embeddings, w1) \<Rightarrow>
                        let rows = (case table w1 of None \<Rightarrow> [] | Some rs \<Rightarrow> rs);
                            data = map (\<lambda>(i, chunk, embedding).
                                         \<lparr>row_vector = embedding, row_text = chunk,
                                          row_file_id = file_id, row_file_path = file_path,
                                          row_chunk_index = int i\<rparr>)
                                     (List.enumerate 0 (zip chunks embeddings))
                        in (case table_add env data rows of
                              Inl e \<Rightarrow> (False, w1\<lparr>table := Some rows\<rparr>)
                            | Inr rows' \<Rightarrow> (True, w1\<lparr>table := Some rows'\<rparr>)))))"

text \<open>\<open>str(i)\<close> for the default ids: the decimal digits of a natural number.\<close>

fun str :: "nat \<Rightarrow> string" where
  "str n = (if n < 10 then [''0123456789'' ! n] else str (n div 10) @ [''0123456789'' ! (n mod 10)])"

declare str.simps [simp del]

record batch_result =
  total :: nat
  success :: nat
  failed :: nat
  failed_files :: "string list"

text \<open>The \<open>for\<close> loop of \<open>index_files\<close> with its three accumulators.\<close>

fun index_files_loop ::
  "env \<Rightarrow> (string \<times> string) list \<Rightarrow> nat \<Rightarrow> nat \<Rightarrow> string list \<Rightarrow> world
     \<Rightarrow> (nat \<times> nat \<times> string list) \<times> world" where
  "index_files_loop env [] success_count fail_count failed_paths w =
     ((success_count, fail_count, failed_paths), w)"
| "index_files_loop env ((file_path, file_id) # rest) success_count fail_count failed_paths w =
     (case index_file env file_path file_id w of
        (True, w') \<Rightarrow> index_files_loop env rest (success_count + 1) fail_count failed_paths w'
      | (False, w') \<Rightarrow>
          index_files_loop env rest success_count (fail_count + 1) (failed_paths @ [file_path]) w')"

definition index_files ::
  "env \<Rightarrow> string list \<Rightarrow> string list option \<Rightarrow> world \<Rightarrow> (exn + batch_result) \<times> world" where
  "index_files env file_paths file_ids_arg w =
     (let file_ids = (case file_ids_arg of
                        None \<Rightarrow> map str [0 ..< length file_paths]
                      | Some ids \<Rightarrow> ids)
      in if length file_paths \<noteq> length file_ids then (Inl ValueError, w)
         else
           (case index_files_loop env (zip file_paths file_ids) 0 0 [] w of
              ((success_count, fail_count, failed_paths), w') \<Rightarrow>
                (Inr \<lparr>total = length file_paths, success = success_count,
                      failed = fail_count, failed_files = failed_paths\<rparr>, w')))"

text \<open>
  The results of the successive \<open>index_file\<close> calls of one batch, in order: the trace
  against which the aggregate of \<open>index_files\<close> is stated.
\<close>

fun file_outcomes :: "env \<Rightarrow> (string \<times> string) list \<Rightarrow> world \<Rightarrow> bool list" where
  "file_outcomes env [] w = []"
| "file_outcomes env ((file_path, file_id) # rest) w =
     (case index_file env file_path file_id w of
        (ok, w') \<Rightarrow> ok # file_outcomes env rest w')"

subsection \<open>\<open>search_similar\<close>\<close>

record search_result =
  res_text :: string
  res_file_path :: string
  res_file_id :: string
  res_chunk_index :: int
  res_score :: real

text \<open>
  The rows LanceDB returns carry the distance in the column \<open>_distance\<close>, here the
  second component of each pair. Every exception ends in \<open>return []\<close>; the query is
  embedded before the table is looked for.
\<close>

definition search_similar :: "env \<Rightarrow> string \<Rightarrow> int \<Rightarrow> world \<Rightarrow> search_result list \<times> world" where
  "search_similar env query limit w =
     (case create_embeddings env [query] w of
        (Inl e, w1) \<Rightarrow> ([], w1)
      | (Inr [], w1) \<Rightarrow> ([], w1)
      | (Inr (query_embedding # _), w1) \<Rightarrow>
          (case table w1 of
             None \<Rightarrow> ([], w1)
           | Some rows \<Rightarrow>
               (case table_search env query_embedding limit rows of
                  Inl e \<Rightarrow> ([], w1)
                | Inr results \<Rightarrow>
                    (map (\<lambda>(row, distance).
                            \<lparr>res_text = row_text row, res_file_path = row_file_path row,
                             res_file_id = row_file_id row,
                             res_chunk_index = row_chunk_index row,
                             res_score = distance\<rparr>) results, w1))))"

subsection \<open>\<open>delete_file_from_index\<close> and the endpoint \<open>delete_indexed_file\<close>\<close>

text \<open>
  The predicate is the text \<open>file_id = '<id>'\<close>. A \<open>TypeError\<close> of the keyword call
  is answered by the positional call; any other exception returns \<open>False\<close>.
\<close>

definition delete_file_from_index :: "env \<Rightarrow> string \<Rightarrow> world \<Rightarrow> bool \<times> world" where
  "delete_file_from_index env file_id w =
     (case table w of
        None \<Rightarrow> (False, w)
      | Some rows \<Rightarrow>
          (let predicate = ''file_id = '' @ [CHR 0x27] @ file_id @ [CHR 0x27]
           in case table_delete env True predicate rows of
                Inr rows' \<Rightarrow> (True, w\<lparr>table := Some rows'\<rparr>)
              | Inl TypeError \<Rightarrow>
                  (case table_delete env False predicate rows of
                     Inr rows' \<Rightarrow> (True, w\<lparr>table := Some rows'\<rparr>)
                   | Inl e \<Rightarrow> (False, w))
              | Inl e \<Rightarrow> (False, w)))"

text \<open>
  The endpoint \<open>DELETE /api/indexing/file/{file_id}\<close>. Its answer is the JSON body
  \<open>{"status": "deleted", ...}\<close> or an \<open>HTTPException\<close> with a status code. The
  \<open>HTTPException(404)\<close> is raised inside the \<open>try\<close> block whose \<open>except Exception\<close>
  answers every exception with a new \<open>HTTPException(500)\<close>.
\<close>

datatype response = Deleted string | HTTPException nat

definition delete_indexed_file ::
  "env \<Rightarrow> string \<Rightarrow> world \<Rightarrow> status_store \<Rightarrow> response \<times> world \<times> status_store" where
  "delete_indexed_file env file_id w db =
     (case delete_file_from_index env file_id w of
        (True, w') \<Rightarrow>
          (case get_file_status db file_id of
             Inl e \<Rightarrow> (HTTPException 500, w', db)
           | Inr None \<Rightarrow> (Deleted file_id, w', db)
           | Inr (Some file_status) \<Rightarrow>
               (Deleted file_id, w', update_file_status db file_id PENDING))
      | (False, w') \<Rightarrow> (HTTPException 500, w', db))"

subsection \<open>A vector store in memory\<close>

text \<open>
  An instance of the table operations for running the model: rows are appended, the
  predicate \<open>file_id = '<id>'\<close> removes the rows of that file, and a search returns the
  \<open>limit\<close> rows nearest to the query by squared Euclidean distance, nearest first.
\<close>

definition l2_distance :: "real list \<Rightarrow> real list \<Rightarrow> real" where
  "l2_distance u v = sum_list (map (\<lambda>(a, b). (a - b) * (a - b)) (zip u v))"

definition memory_add :: "chunk_row list \<Rightarrow> chunk_row list \<Rightarrow> exn + chunk_row list" where
  "memory_add data rows = Inr (rows @ data)"

definition memory_search ::
  "real list \<Rightarrow> int \<Rightarrow> chunk_row list \<Rightarrow> exn + (chunk_row \<times> real) list" where
  "memory_search q limit rows =
     Inr (take (nat limit)
            (sort_key snd (map (\<lambda>r. (r, l2_distance q (row_vector r))) rows)))"

definition memory_delete :: "bool \<Rightarrow> string \<Rightarrow> chunk_row list \<Rightarrow> exn + chunk_row list" where
  "memory_delete keyword predicate rows =
     Inr (filter (\<lambda>r. predicate \<noteq> ''file_id = '' @ [CHR 0x27] @ row_file_id r @ [CHR 0x27]) rows)"

subsection \<open>The state of the world after a batch\<close>

text \<open>The world after the successive \<open>index_file\<close> calls of a batch.\<close>

fun batch_world :: "env \<Rightarrow> (string \<times> string) list \<Rightarrow> world \<Rightarrow> world" where
  "batch_world env [] w = w"
| "batch_world env ((file_path, file_id) # rest) w =
     batch_world env rest (snd (index_file env file_path file_id w))"

subsection \<open>Inputs for the examples\<close>

text \<open>
  A small vault, a provider that answers every text with the vector \<open>[1]\<close>, a provider
  that is unreachable at its first call only, one that is unreachable at its call
  number \<open>k\<close> only, and the environment they make with the vector store in memory and no
  tokenizer installed.
\<close>

definition notes_files :: "string \<Rightarrow> file_entry" where
  "notes_files p =
     (if p = ''notes/a.md'' then Content ''alpha''
      else if p = ''notes/b.md'' then Content ''beta''
      else if p = ''notes/c.bin'' then Content ''gamma''
      else if p = ''notes/d.md'' then Unreadable
      else if p = ''notes/f.txt'' then Content ''zeta''
      else Missing)"

definition unit_provider :: "nat \<Rightarrow> string list \<Rightarrow> exn + real list list" where
  "unit_provider n texts = Inr (map (\<lambda>t. [1]) texts)"

definition outage_provider :: "nat \<Rightarrow> string list \<Rightarrow> exn + real list list" where
  "outage_provider n texts = (if n = 0 then Inl ExternalFailure else unit_provider n texts)"

definition outage_at :: "nat \<Rightarrow> nat \<Rightarrow> string list \<Rightarrow> exn + real list list" where
  "outage_at k n texts = (if n = k then Inl ExternalFailure else unit_provider n texts)"

definition memory_env ::
  "(string \<Rightarrow> file_entry) \<Rightarrow> (nat \<Rightarrow> string list \<Rightarrow> exn + real list list) \<Rightarrow> env" where
  "memory_env fs provider =
     \<lparr>files = fs, tiktoken = None, embeddings_create = provider,
      table_add = memory_add, table_search = memory_search, table_delete = memory_delete\<rparr>"

section \<open>StatusStore: lookups and the id column\<close>

lemma scalar_one_or_none_Some: "scalar_one_or_none xs = Inr (Some r) \<longleftrightarrow> xs = [r]"
  by (cases xs rule: scalar_one_or_none.cases) auto

lemma scalar_one_or_none_None: "scalar_one_or_none xs = Inr None \<longleftrightarrow> xs = []"
  by (cases xs rule: scalar_one_or_none.cases) auto

lemma split_nonempty: "split sep s \<noteq> []"
  by (induction s) (auto split: list.splits)

lemma by_path_None:
  "(\<forall>r \<in> set db. fs_path r \<noteq> p) \<Longrightarrow> get_file_status_by_path db p = Inr None"
  by (simp add: get_file_status_by_path_def scalar_one_or_none_None filter_empty_conv)

lemma by_path_Some_mem:
  assumes "get_file_status_by_path db p = Inr (Some r)"
  shows "r \<in> set db \<and> fs_path r = p"
proof -
  from assms have "filter (\<lambda>x. fs_path x = p) db = [r]"
    by (simp add: get_file_status_by_path_def scalar_one_or_none_Some)
  then have "r \<in> set (filter (\<lambda>x. fs_path x = p) db)" by simp
  then show ?thesis by simp
qed

lemma ids_update_status: "map fs_id (update_file_status db i s) = map fs_id db"
  by (induction db) (auto simp: update_file_status_def)

lemma ids_bulk_update: "map fs_id (bulk_update_file_statuses db us) = map fs_id db"
  by (induction db us rule: bulk_update_file_statuses.induct) (auto simp: ids_update_status)

lemma ids_rename: "map fs_id (rename_file_status db p q) = map fs_id db"
  by (induction db) (auto simp: rename_file_status_def)

lemma ids_update_name: "map fs_id (update_file_status_name db i n) = map fs_id db"
  by (induction db) (auto simp: update_file_status_name_def)

lemma statuses_rename: "map fs_status (rename_file_status db p q) = map fs_status db"
  by (induction db) (auto simp: rename_file_status_def)

lemma subseq_ids_filter: "subseq (map fs_id (filter P db)) (map fs_id db)"
  by (induction db) auto

lemma distinct_ids_filter: "distinct (map fs_id db) \<Longrightarrow> distinct (map fs_id (filter P db))"
  by (simp add: distinct_map_filter)

lemma create_ids:
  "create_file_status db r = Inr db' \<Longrightarrow>
     map fs_id db' = map fs_id db @ [fs_id r] \<and> fs_id r \<notin> set (map fs_id db)"
  by (auto simp: create_file_status_def split: if_splits)

lemma apply_op_subseq:
  assumes "apply_op op db = Inr db'"
  shows "subseq (map fs_id db') (map fs_id db @ inserted_ids op)"
proof (cases op)
  case (CreateFileStatus r)
  with assms show ?thesis by (auto dest: create_ids)
next
  case (GetOrCreateFileStatus r)
  with assms show ?thesis
    by (auto simp: get_or_create_file_status_def dest: create_ids split: sum.splits option.splits)
next
  case (OnCreated ev uuid)
  with assms show ?thesis
    by (auto simp: on_created_def create_file_status_async_def dest!: create_ids split: if_splits)
next
  case (OnModified ev)
  with assms show ?thesis
    by (auto simp: on_modified_def update_file_status_async_def ids_update_status
        split: if_splits sum.splits option.splits)
next
  case (OnDeleted ev)
  with assms show ?thesis
    by (auto simp: on_deleted_def delete_file_status_async_def delete_file_status_def
        subseq_ids_filter split: if_splits sum.splits option.splits)
next
  case (OnMoved ev)
  with assms show ?thesis
    by (auto simp: on_moved_def rename_file_status_async_def ids_rename split: if_splits)
qed (use assms in \<open>auto simp: ids_update_status ids_bulk_update ids_rename ids_update_name
      delete_file_status_def bulk_delete_file_statuses_def delete_file_statuses_by_status_def
      subseq_ids_filter\<close>)

lemma apply_op_in_place:
  assumes "apply_op op db = Inr db'" and "in_place op"
  shows "map fs_id db' = map fs_id db"
  using assms
  by (cases op)
    (auto simp: ids_update_status ids_bulk_update ids_rename ids_update_name
      on_modified_def update_file_status_async_def on_moved_def rename_file_status_async_def
      split: if_splits sum.splits option.splits)

lemma apply_op_prefix:
  assumes "apply_op op db = Inr db'" and "inserted_ids op \<noteq> []"
  shows "prefix (map fs_id db) (map fs_id db')"
  using assms
  by (cases op)
    (auto simp: get_or_create_file_status_def on_created_def create_file_status_async_def
      dest!: create_ids split: sum.splits option.splits if_splits)

lemma apply_op_distinct:
  assumes "apply_op op db = Inr db'" and "distinct (map fs_id db)"
  shows "distinct (map fs_id db')"
proof (cases op)
  case (CreateFileStatus r)
  with assms show ?thesis by (auto dest: create_ids)
next
  case (GetOrCreateFileStatus r)
  with assms show ?thesis
    by (auto simp: get_or_create_file_status_def dest: create_ids split: sum.splits option.splits)
next
  case (OnCreated ev uuid)
  with assms show ?thesis
    by (auto simp: on_created_def create_file_status_async_def dest!: create_ids split: if_splits)
next
  case (OnModified ev)
  with assms show ?thesis
    by (auto simp: on_modified_def update_file_status_async_def ids_update_status
        split: if_splits sum.splits option.splits)
next
  case (OnDeleted ev)
  with assms show ?thesis
    by (auto simp: on_deleted_def delete_file_status_async_def delete_file_status_def
        distinct_ids_filter split: if_splits sum.splits option.splits)
next
  case (OnMoved ev)
  with assms show ?thesis
    by (auto simp: on_moved_def rename_file_status_async_def ids_rename split: if_splits)
qed (use assms in \<open>auto simp: ids_update_status ids_bulk_update ids_rename ids_update_name
      delete_file_status_def bulk_delete_file_statuses_def delete_file_statuses_by_status_def
      distinct_ids_filter\<close>)

lemma on_created_fresh:
  assumes "\<not> is_directory ev" and "uuid \<notin> set (map fs_id db)"
  shows "on_created ev uuid db =
     Inr (db @ [\<lparr>fs_id = uuid, fs_name = basename (src_path ev),
                 fs_path = src_path ev, fs_status = PENDING\<rparr>])"
  using assms by (simp add: on_created_def create_file_status_async_def create_file_status_def)

lemma rename_old_gone:
  assumes "old \<noteq> new"
  shows "filter (\<lambda>x. fs_path x = old) (rename_file_status db old new) = []"
  using assms by (induction db) (auto simp: rename_file_status_def)

lemma rename_new_lookup:
  assumes "\<forall>x \<in> set db. fs_path x \<noteq> new"
  shows "filter (\<lambda>x. fs_path x = new) (rename_file_status db old new)
       = map (\<lambda>r. r\<lparr>fs_path := new, fs_name := last (split (CHR ''/'') new)\<rparr>)
           (filter (\<lambda>x. fs_path x = old) db)"
  using assms by (induction db) (auto simp: rename_file_status_def)

lemma rename_others:
  "i < length db \<Longrightarrow> fs_path (db ! i) \<noteq> old \<Longrightarrow> rename_file_status db old new ! i = db ! i"
  by (simp add: rename_file_status_def)

lemma keeping_handlers_prefix:
  assumes "on_created ev uuid db = Inr db2 \<or> on_modified ev db = Inr db2
           \<or> on_moved ev db = Inr db2"
  shows "prefix (map fs_id db) (map fs_id db2)"
proof -
  from assms consider
      "apply_op (OnCreated ev uuid) db = Inr db2"
    | "apply_op (OnModified ev) db = Inr db2"
    | "apply_op (OnMoved ev) db = Inr db2"
    by auto
  then show ?thesis
  proof cases
    case 1
    then show ?thesis by (rule apply_op_prefix) simp
  next
    case 2
    then have "map fs_id db2 = map fs_id db" by (rule apply_op_in_place) simp
    then show ?thesis by simp
  next
    case 3
    then have "map fs_id db2 = map fs_id db" by (rule apply_op_in_place) simp
    then show ?thesis by simp
  qed
qed

section \<open>The watch path: file removed\<close>

text \<open>
  Claim C1 (as amended). A "file removed" notification for a path with exactly one
  record physically removes that record from the table: the store afterwards is the
  store before without the rows of that id, every row that stays is as it was, and no
  status is set to \<open>DELETED\<close>. The other three notifications (created, modified,
  moved) never remove a row: the id column before is a prefix of the id column after.
\<close>

theorem on_deleted_removes_record:
  assumes "\<not> is_directory ev"
    and "get_file_status_by_path db (src_path ev) = Inr (Some r)"
  shows "on_deleted ev db = Inr (filter (\<lambda>x. fs_id x \<noteq> fs_id r) db)
       \<and> r \<in> set db
       \<and> r \<notin> set (filter (\<lambda>x. fs_id x \<noteq> fs_id r) db)
       \<and> (on_created ev2 uuid db = Inr db2 \<or> on_modified ev2 db = Inr db2
            \<or> on_moved ev2 db = Inr db2 \<longrightarrow> prefix (map fs_id db) (map fs_id db2))"
proof -
  from assms(2) have "r \<in> set db" by (simp add: by_path_Some_mem)
  moreover have "on_deleted ev db = Inr (filter (\<lambda>x. fs_id x \<noteq> fs_id r) db)"
    using assms
    by (simp add: on_deleted_def delete_file_status_async_def delete_file_status_def)
  ultimately show ?thesis
    using keeping_handlers_prefix [of ev2 uuid db db2] by simp
qed

theorem on_deleted_removes_record_witness:
  "\<not> is_directory \<lparr>is_directory = False, src_path = ''notes/a.md'', dest_path = ''''\<rparr>
   \<and> get_file_status_by_path
       [\<lparr>fs_id = ''id1'', fs_name = ''a.md'', fs_path = ''notes/a.md'', fs_status = SYNCED\<rparr>,
        \<lparr>fs_id = ''id2'', fs_name = ''b.md'', fs_path = ''notes/b.md'', fs_status = PENDING\<rparr>]
       ''notes/a.md''
     = Inr (Some \<lparr>fs_id = ''id1'', fs_name = ''a.md'', fs_path = ''notes/a.md'', fs_status = SYNCED\<rparr>)
   \<and> on_deleted \<lparr>is_directory = False, src_path = ''notes/a.md'', dest_path = ''''\<rparr>
       [\<lparr>fs_id = ''id1'', fs_name = ''a.md'', fs_path = ''notes/a.md'', fs_status = SYNCED\<rparr>,
        \<lparr>fs_id = ''id2'', fs_name = ''b.md'', fs_path = ''notes/b.md'', fs_status = PENDING\<rparr>]
     = Inr [\<lparr>fs_id = ''id2'', fs_name = ''b.md'', fs_path = ''notes/b.md'', fs_status = PENDING\<rparr>]
   \<and> on_modified \<lparr>is_directory = False, src_path = ''notes/b.md'', dest_path = ''''\<rparr>
       [\<lparr>fs_id = ''id1'', fs_name = ''a.md'', fs_path = ''notes/a.md'', fs_status = SYNCED\<rparr>,
        \<lparr>fs_id = ''id2'', fs_name = ''b.md'', fs_path = ''notes/b.md'', fs_status = PENDING\<rparr>]
     = Inr [\<lparr>fs_id = ''id1'', fs_name = ''a.md'', fs_path = ''notes/a.md'', fs_status = SYNCED\<rparr>,
            \<lparr>fs_id = ''id2'', fs_name = ''b.md'', fs_path = ''notes/b.md'', fs_status = MODIFIED\<rparr>]
   \<and> prefix
       (map fs_id
         [\<lparr>fs_id = ''id1'', fs_name = ''a.md'', fs_path = ''notes/a.md'', fs_status = SYNCED\<rparr>,
          \<lparr>fs_id = ''id2'', fs_name = ''b.md'', fs_path = ''notes/b.md'', fs_status = PENDING\<rparr>])
       (map fs_id
         [\<lparr>fs_id = ''id1'', fs_name = ''a.md'', fs_path = ''notes/a.md'', fs_status = SYNCED\<rparr>,
          \<lparr>fs_id = ''id2'', fs_name = ''b.md'', fs_path = ''notes/b.md'', fs_status = MODIFIED\<rparr>])"
proof -
  have h: "get_file_status_by_path
       [\<lparr>fs_id = ''id1'', fs_name = ''a.md'', fs_path = ''notes/a.md'', fs_status = SYNCED\<rparr>,
        \<lparr>fs_id = ''id2'', fs_name = ''b.md'', fs_path = ''notes/b.md'', fs_status = PENDING\<rparr>]
       ''notes/a.md''
     = Inr (Some \<lparr>fs_id = ''id1'', fs_name = ''a.md'', fs_path = ''notes/a.md'', fs_status = SYNCED\<rparr>)"
    by (simp add: get_file_status_by_path_def)
  have m: "on_modified \<lparr>is_directory = False, src_path = ''notes/b.md'', dest_path = ''''\<rparr>
       [\<lparr>fs_id = ''id1'', fs_name = ''a.md'', fs_path = ''notes/a.md'', fs_status = SYNCED\<rparr>,
        \<lparr>fs_id = ''id2'', fs_name = ''b.md'', fs_path = ''notes/b.md'', fs_status = PENDING\<rparr>]
     = Inr [\<lparr>fs_id = ''id1'', fs_name = ''a.md'', fs_path = ''notes/a.md'', fs_status = SYNCED\<rparr>,
            \<lparr>fs_id = ''id2'', fs_name = ''b.md'', fs_path = ''notes/b.md'', fs_status = MODIFIED\<rparr>]"
    by (simp add: on_modified_def update_file_status_async_def get_file_status_by_path_def
        update_file_status_def)
  show ?thesis
    using h m on_deleted_removes_record
      [of "\<lparr>is_directory = False, src_path = ''notes/a.md'', dest_path = ''''\<rparr>"
        "[\<lparr>fs_id = ''id1'', fs_name = ''a.md'', fs_path = ''notes/a.md'', fs_status = SYNCED\<rparr>,
          \<lparr>fs_id = ''id2'', fs_name = ''b.md'', fs_path = ''notes/b.md'', fs_status = PENDING\<rparr>]"
        "\<lparr>fs_id = ''id1'', fs_name = ''a.md'', fs_path = ''notes/a.md'', fs_status = SYNCED\<rparr>"
        "\<lparr>is_directory = False, src_path = ''notes/b.md'', dest_path = ''''\<rparr>" "''id3''"
        "[\<lparr>fs_id = ''id1'', fs_name = ''a.md'', fs_path = ''notes/a.md'', fs_status = SYNCED\<rparr>,
          \<lparr>fs_id = ''id2'', fs_name = ''b.md'', fs_path = ''notes/b.md'', fs_status = MODIFIED\<rparr>]"]
    by simp
qed

text \<open>
  Claim C1 as stated fails: with one record at \<open>notes/a.md\<close>, the notification leaves
  an empty table, not a record of status \<open>DELETED\<close>.
\<close>

theorem on_deleted_sets_deleted_counterexample:
  "get_file_status_by_path
     [\<lparr>fs_id = ''id1'', fs_name = ''a.md'', fs_path = ''notes/a.md'', fs_status = SYNCED\<rparr>]
     ''notes/a.md''
     = Inr (Some \<lparr>fs_id = ''id1'', fs_name = ''a.md'', fs_path = ''notes/a.md'', fs_status = SYNCED\<rparr>)
   \<and> on_deleted \<lparr>is_directory = False, src_path = ''notes/a.md'', dest_path = ''''\<rparr>
        [\<lparr>fs_id = ''id1'', fs_name = ''a.md'', fs_path = ''notes/a.md'', fs_status = SYNCED\<rparr>]
      = Inr []
   \<and> on_deleted \<lparr>is_directory = False, src_path = ''notes/a.md'', dest_path = ''''\<rparr>
        [\<lparr>fs_id = ''id1'', fs_name = ''a.md'', fs_path = ''notes/a.md'', fs_status = SYNCED\<rparr>]
      \<noteq> Inr [\<lparr>fs_id = ''id1'', fs_name = ''a.md'', fs_path = ''notes/a.md'', fs_status = DELETED\<rparr>]"
  by (simp add: get_file_status_by_path_def on_deleted_def delete_file_status_async_def
      delete_file_status_def)

section \<open>StatusStore: ids and the one-record-per-path invariant\<close>

text \<open>
  Claim C2 (as amended). Every operation on the StatusStore keeps the ids of the table
  distinct and never rewrites an id: after the operation the id column is a subsequence
  of the id column before, followed by the id the operation may insert; an update in
  place leaves the id column as it was, and an inserting operation keeps every old row.
  A "file appears" notification for a file inserts a new \<open>PENDING\<close> record whenever its
  fresh id is not in the table, whether or not a record at that path exists.
\<close>

theorem ids_unique_and_immutable:
  "(distinct (map fs_id db) \<and> apply_op op db = Inr db' \<longrightarrow>
      distinct (map fs_id db')
      \<and> subseq (map fs_id db') (map fs_id db @ inserted_ids op)
      \<and> (in_place op \<longrightarrow> map fs_id db' = map fs_id db)
      \<and> (inserted_ids op \<noteq> [] \<longrightarrow> prefix (map fs_id db) (map fs_id db')))
   \<and> (\<not> is_directory ev \<and> uuid \<notin> set (map fs_id db) \<longrightarrow>
        on_created ev uuid db =
          Inr (db @ [\<lparr>fs_id = uuid, fs_name = basename (src_path ev),
                      fs_path = src_path ev, fs_status = PENDING\<rparr>]))"
  using apply_op_distinct [of op db db'] apply_op_subseq [of op db db']
    apply_op_in_place [of op db db'] apply_op_prefix [of op db db']
    on_created_fresh [of ev uuid db]
  by blast

theorem ids_unique_and_immutable_witness:
  "distinct (map fs_id [\<lparr>fs_id = ''id1'', fs_name = ''a.md'', fs_path = ''notes/a.md'', fs_status = PENDING\<rparr>])
   \<and> apply_op (OnMoved \<lparr>is_directory = False, src_path = ''notes/a.md'', dest_path = ''notes/b.md''\<rparr>)
        [\<lparr>fs_id = ''id1'', fs_name = ''a.md'', fs_path = ''notes/a.md'', fs_status = PENDING\<rparr>]
      = Inr [\<lparr>fs_id = ''id1'', fs_name = ''b.md'', fs_path = ''notes/b.md'', fs_status = PENDING\<rparr>]
   \<and> map fs_id [\<lparr>fs_id = ''id1'', fs_name = ''b.md'', fs_path = ''notes/b.md'', fs_status = PENDING\<rparr>]
      = map fs_id [\<lparr>fs_id = ''id1'', fs_name = ''a.md'', fs_path = ''notes/a.md'', fs_status = PENDING\<rparr>]
   \<and> \<not> is_directory \<lparr>is_directory = False, src_path = ''notes/a.md'', dest_path = ''''\<rparr>
   \<and> ''id2'' \<notin> set (map fs_id [\<lparr>fs_id = ''id1'', fs_name = ''a.md'', fs_path = ''notes/a.md'', fs_status = PENDING\<rparr>])
   \<and> on_created \<lparr>is_directory = False, src_path = ''notes/a.md'', dest_path = ''''\<rparr> ''id2''
        [\<lparr>fs_id = ''id1'', fs_name = ''a.md'', fs_path = ''notes/a.md'', fs_status = PENDING\<rparr>]
      = Inr [\<lparr>fs_id = ''id1'', fs_name = ''a.md'', fs_path = ''notes/a.md'', fs_status = PENDING\<rparr>,
             \<lparr>fs_id = ''id2'', fs_name = ''a.md'', fs_path = ''notes/a.md'', fs_status = PENDING\<rparr>]"
proof -
  have m: "apply_op (OnMoved \<lparr>is_directory = False, src_path = ''notes/a.md'', dest_path = ''notes/b.md''\<rparr>)
        [\<lparr>fs_id = ''id1'', fs_name = ''a.md'', fs_path = ''notes/a.md'', fs_status = PENDING\<rparr>]
      = Inr [\<lparr>fs_id = ''id1'', fs_name = ''b.md'', fs_path = ''notes/b.md'', fs_status = PENDING\<rparr>]"
    by (simp add: on_moved_def rename_file_status_async_def rename_file_status_def)
  show ?thesis
    using m ids_unique_and_immutable
      [of "[\<lparr>fs_id = ''id1'', fs_name = ''a.md'', fs_path = ''notes/a.md'', fs_status = PENDING\<rparr>]"
        "OnMoved \<lparr>is_directory = False, src_path = ''notes/a.md'', dest_path = ''notes/b.md''\<rparr>"
        "[\<lparr>fs_id = ''id1'', fs_name = ''b.md'', fs_path = ''notes/b.md'', fs_status = PENDING\<rparr>]"
        "\<lparr>is_directory = False, src_path = ''notes/a.md'', dest_path = ''''\<rparr>" "''id2''"]
    by (simp add: basename_def)
qed

text \<open>
  Claim C2 as stated fails: two "file appears" notifications for \<open>notes/a.md\<close> leave
  two live records at that path. The second is accepted although a live record exists.
\<close>

theorem on_created_twice_counterexample:
  "one_live_per_path []
   \<and> on_created \<lparr>is_directory = False, src_path = ''notes/a.md'', dest_path = ''''\<rparr> ''id1'' []
       = Inr [\<lparr>fs_id = ''id1'', fs_name = ''a.md'', fs_path = ''notes/a.md'', fs_status = PENDING\<rparr>]
   \<and> one_live_per_path [\<lparr>fs_id = ''id1'', fs_name = ''a.md'', fs_path = ''notes/a.md'', fs_status = PENDING\<rparr>]
   \<and> on_created \<lparr>is_directory = False, src_path = ''notes/a.md'', dest_path = ''''\<rparr> ''id2''
        [\<lparr>fs_id = ''id1'', fs_name = ''a.md'', fs_path = ''notes/a.md'', fs_status = PENDING\<rparr>]
       = Inr [\<lparr>fs_id = ''id1'', fs_name = ''a.md'', fs_path = ''notes/a.md'', fs_status = PENDING\<rparr>,
              \<lparr>fs_id = ''id2'', fs_name = ''a.md'', fs_path = ''notes/a.md'', fs_status = PENDING\<rparr>]
   \<and> \<not> one_live_per_path
        [\<lparr>fs_id = ''id1'', fs_name = ''a.md'', fs_path = ''notes/a.md'', fs_status = PENDING\<rparr>,
         \<lparr>fs_id = ''id2'', fs_name = ''a.md'', fs_path = ''notes/a.md'', fs_status = PENDING\<rparr>]"
  by (simp add: one_live_per_path_def live_def on_created_def create_file_status_async_def
      create_file_status_def basename_def)

section \<open>The watch path: rename\<close>

text \<open>
  Claim C9 (as amended). A rename notification old \<open>\<rightarrow>\<close> new for a file, where exactly
  one record is at the old path and no record is at the new path, changes only the
  \<open>path\<close> and \<open>name\<close> of that record: every id and every status of the table is as
  before, every row at another path is as before, a lookup by the old path then finds
  nothing, and a lookup by the new path finds the same record with its new path and name.
\<close>

theorem on_moved_renames_in_place:
  assumes "\<not> is_directory ev"
    and "get_file_status_by_path db (src_path ev) = Inr (Some r)"
    and "\<forall>x \<in> set db. fs_path x \<noteq> dest_path ev"
  shows "on_moved ev db = Inr (rename_file_status db (src_path ev) (dest_path ev))
     \<and> map fs_id (rename_file_status db (src_path ev) (dest_path ev)) = map fs_id db
     \<and> map fs_status (rename_file_status db (src_path ev) (dest_path ev)) = map fs_status db
     \<and> (\<forall>i < length db. fs_path (db ! i) \<noteq> src_path ev \<longrightarrow>
           rename_file_status db (src_path ev) (dest_path ev) ! i = db ! i)
     \<and> get_file_status_by_path (rename_file_status db (src_path ev) (dest_path ev)) (src_path ev)
         = Inr None
     \<and> get_file_status_by_path (rename_file_status db (src_path ev) (dest_path ev)) (dest_path ev)
         = Inr (Some (r\<lparr>fs_path := dest_path ev,
                         fs_name := last (split (CHR ''/'') (dest_path ev))\<rparr>))"
proof -
  let ?db' = "rename_file_status db (src_path ev) (dest_path ev)"
  from assms(2) have one: "filter (\<lambda>x. fs_path x = src_path ev) db = [r]"
    by (simp add: get_file_status_by_path_def scalar_one_or_none_Some)
  from assms(2) have "r \<in> set db" and "fs_path r = src_path ev"
    by (auto dest: by_path_Some_mem)
  with assms(3) have neq: "src_path ev \<noteq> dest_path ev" by auto
  have a: "on_moved ev db = Inr ?db'"
    using assms(1) by (simp add: on_moved_def rename_file_status_async_def)
  have b: "get_file_status_by_path ?db' (src_path ev) = Inr None"
    by (simp add: get_file_status_by_path_def rename_old_gone [OF neq])
  have c: "get_file_status_by_path ?db' (dest_path ev)
         = Inr (Some (r\<lparr>fs_path := dest_path ev,
                         fs_name := last (split (CHR ''/'') (dest_path ev))\<rparr>))"
    by (simp add: get_file_status_by_path_def rename_new_lookup [OF assms(3)] one)
  show ?thesis
    using a b c by (simp add: ids_rename statuses_rename rename_others)
qed

theorem on_moved_renames_in_place_witness:
  "\<not> is_directory \<lparr>is_directory = False, src_path = ''notes/a.md'', dest_path = ''notes/b.md''\<rparr>
   \<and> get_file_status_by_path
       [\<lparr>fs_id = ''id1'', fs_name = ''a.md'', fs_path = ''notes/a.md'', fs_status = SYNCED\<rparr>]
       ''notes/a.md''
     = Inr (Some \<lparr>fs_id = ''id1'', fs_name = ''a.md'', fs_path = ''notes/a.md'', fs_status = SYNCED\<rparr>)
   \<and> on_moved \<lparr>is_directory = False, src_path = ''notes/a.md'', dest_path = ''notes/b.md''\<rparr>
       [\<lparr>fs_id = ''id1'', fs_name = ''a.md'', fs_path = ''notes/a.md'', fs_status = SYNCED\<rparr>]
     = Inr [\<lparr>fs_id = ''id1'', fs_name = ''b.md'', fs_path = ''notes/b.md'', fs_status = SYNCED\<rparr>]
   \<and> get_file_status_by_path
       [\<lparr>fs_id = ''id1'', fs_name = ''b.md'', fs_path = ''notes/b.md'', fs_status = SYNCED\<rparr>]
       ''notes/a.md'' = Inr None
   \<and> get_file_status_by_path
       [\<lparr>fs_id = ''id1'', fs_name = ''b.md'', fs_path = ''notes/b.md'', fs_status = SYNCED\<rparr>]
       ''notes/b.md''
     = Inr (Some \<lparr>fs_id = ''id1'', fs_name = ''b.md'', fs_path = ''notes/b.md'', fs_status = SYNCED\<rparr>)"
proof -
  have h: "get_file_status_by_path
       [\<lparr>fs_id = ''id1'', fs_name = ''a.md'', fs_path = ''notes/a.md'', fs_status = SYNCED\<rparr>]
       ''notes/a.md''
     = Inr (Some \<lparr>fs_id = ''id1'', fs_name = ''a.md'', fs_path = ''notes/a.md'', fs_status = SYNCED\<rparr>)"
    by (simp add: get_file_status_by_path_def)
  have r: "rename_file_status
       [\<lparr>fs_id = ''id1'', fs_name = ''a.md'', fs_path = ''notes/a.md'', fs_status = SYNCED\<rparr>]
       ''notes/a.md'' ''notes/b.md''
     = [\<lparr>fs_id = ''id1'', fs_name = ''b.md'', fs_path = ''notes/b.md'', fs_status = SYNCED\<rparr>]"
    by (simp add: rename_file_status_def)
  show ?thesis
    using h on_moved_renames_in_place
      [of "\<lparr>is_directory = False, src_path = ''notes/a.md'', dest_path = ''notes/b.md''\<rparr>"
        "[\<lparr>fs_id = ''id1'', fs_name = ''a.md'', fs_path = ''notes/a.md'', fs_status = SYNCED\<rparr>]"
        "\<lparr>fs_id = ''id1'', fs_name = ''a.md'', fs_path = ''notes/a.md'', fs_status = SYNCED\<rparr>"]
    by (simp add: r)
qed

text \<open>
  Claim C9 as stated fails when a record is already at the new path (a file moved over
  a tracked file): the renamed record and the old one share the path, and the lookup
  by the new path raises \<open>MultipleResultsFound\<close> instead of returning the record.
\<close>

theorem on_moved_onto_tracked_path_counterexample:
  "get_file_status_by_path
     [\<lparr>fs_id = ''id1'', fs_name = ''a.md'', fs_path = ''notes/a.md'', fs_status = SYNCED\<rparr>,
      \<lparr>fs_id = ''id2'', fs_name = ''b.md'', fs_path = ''notes/b.md'', fs_status = SYNCED\<rparr>]
     ''notes/a.md''
     = Inr (Some \<lparr>fs_id = ''id1'', fs_name = ''a.md'', fs_path = ''notes/a.md'', fs_status = SYNCED\<rparr>)
   \<and> on_moved \<lparr>is_directory = False, src_path = ''notes/a.md'', dest_path = ''notes/b.md''\<rparr>
       [\<lparr>fs_id = ''id1'', fs_name = ''a.md'', fs_path = ''notes/a.md'', fs_status = SYNCED\<rparr>,
        \<lparr>fs_id = ''id2'', fs_name = ''b.md'', fs_path = ''notes/b.md'', fs_status = SYNCED\<rparr>]
     = Inr [\<lparr>fs_id = ''id1'', fs_name = ''b.md'', fs_path = ''notes/b.md'', fs_status = SYNCED\<rparr>,
            \<lparr>fs_id = ''id2'', fs_name = ''b.md'', fs_path = ''notes/b.md'', fs_status = SYNCED\<rparr>]
   \<and> get_file_status_by_path
       [\<lparr>fs_id = ''id1'', fs_name = ''b.md'', fs_path = ''notes/b.md'', fs_status = SYNCED\<rparr>,
        \<lparr>fs_id = ''id2'', fs_name = ''b.md'', fs_path = ''notes/b.md'', fs_status = SYNCED\<rparr>]
       ''notes/b.md''
     = Inl MultipleResultsFound"
  by (simp add: get_file_status_by_path_def on_moved_def rename_file_status_async_def
      rename_file_status_def)

section \<open>The watch path: notifications for untracked paths\<close>

text \<open>
  Claim C10. A "modified" or "deleted" notification for a path that has no record in
  the StatusStore changes nothing and raises nothing: the handler returns the store it
  was given.
\<close>

theorem untracked_modified_deleted_noop:
  assumes "\<forall>r \<in> set db. fs_path r \<noteq> src_path ev"
  shows "on_modified ev db = Inr db \<and> on_deleted ev db = Inr db"
  using by_path_None [OF assms]
  by (simp add: on_modified_def on_deleted_def update_file_status_async_def
      delete_file_status_async_def)

theorem untracked_modified_deleted_noop_witness:
  "filter (\<lambda>r. fs_path r = ''notes/b.md'')
     [\<lparr>fs_id = ''id1'', fs_name = ''a.md'', fs_path = ''notes/a.md'', fs_status = SYNCED\<rparr>] = []
   \<and> on_modified \<lparr>is_directory = False, src_path = ''notes/b.md'', dest_path = ''''\<rparr>
        [\<lparr>fs_id = ''id1'', fs_name = ''a.md'', fs_path = ''notes/a.md'', fs_status = SYNCED\<rparr>]
      = Inr [\<lparr>fs_id = ''id1'', fs_name = ''a.md'', fs_path = ''notes/a.md'', fs_status = SYNCED\<rparr>]
   \<and> on_deleted \<lparr>is_directory = False, src_path = ''notes/b.md'', dest_path = ''''\<rparr>
        [\<lparr>fs_id = ''id1'', fs_name = ''a.md'', fs_path = ''notes/a.md'', fs_status = SYNCED\<rparr>]
      = Inr [\<lparr>fs_id = ''id1'', fs_name = ''a.md'', fs_path = ''notes/a.md'', fs_status = SYNCED\<rparr>]"
  using untracked_modified_deleted_noop
    [of "[\<lparr>fs_id = ''id1'', fs_name = ''a.md'', fs_path = ''notes/a.md'', fs_status = SYNCED\<rparr>]"
      "\<lparr>is_directory = False, src_path = ''notes/b.md'', dest_path = ''''\<rparr>"]
  by simp

section \<open>Chunking\<close>

lemma slice_nonneg:
  assumes "0 \<le> i" and "0 \<le> j"
  shows "slice xs i j = take (nat j - nat i) (drop (nat i) xs)"
proof (cases "i < int (length xs)")
  case True
  have "take (nat (min j (int (length xs)) - i)) (drop (nat i) xs)
        = take (min (nat j - nat i) (length (drop (nat i) xs))) (drop (nat i) xs)"
  proof -
    have "nat (min j (int (length xs)) - i) = min (nat j - nat i) (length xs - nat i)"
      using assms True by arith
    then show ?thesis by simp
  qed
  also have "\<dots> = take (nat j - nat i) (drop (nat i) xs)"
    by (simp add: min_def)
  finally show ?thesis
    using assms True by (simp add: slice_def Let_def min_def)
next
  case False
  then show ?thesis using assms by (simp add: slice_def Let_def min_def)
qed

lemma range_from_800:
  "range_from i n 800 = map (\<lambda>k. i + 800 * int k) [0 ..< nat ((n - i + 799) div 800)]"
proof (induction i n "800 :: int" rule: range_from.induct)
  case (1 i n)
  show ?case
  proof (cases "i < n")
    case True
    define m where "m = nat ((n - (i + 800) + 799) div 800)"
    have m: "nat ((n - i + 799) div 800) = Suc m"
      using True unfolding m_def by linarith
    have "range_from i n 800 = i # range_from (i + 800) n 800"
      using True by (subst range_from.simps) simp
    also have "\<dots> = i # map (\<lambda>k. i + 800 + 800 * int k) [0 ..< m]"
      using "1" True by (simp add: m_def)
    also have "\<dots> = map (\<lambda>k. i + 800 * int k) (0 # map Suc [0 ..< m])"
      by (simp add: comp_def algebra_simps)
    also have "0 # map Suc [0 ..< m] = [0 ..< Suc m]"
      by (simp add: map_Suc_upt upt_conv_Cons del: upt_Suc)
    finally show ?thesis by (simp only: m)
  next
    case False
    then have "nat ((n - i + 799) div 800) = 0" by linarith
    moreover have "range_from i n 800 = []"
      using False by (subst range_from.simps) simp
    ultimately show ?thesis by simp
  qed
qed

lemma chunk_text_fallback:
  "chunk_text None content CHUNK_SIZE CHUNK_OVERLAP
     = Inr (map (\<lambda>k. take 1000 (drop (800 * k) content)) [0 ..< (length content + 799) div 800])"
proof -
  have n: "nat ((int (length content) + 799) div 800) = (length content + 799) div 800"
    by linarith
  have "slice content (800 * int k) (800 * int k + 1000) = take 1000 (drop (800 * k) content)" for k
  proof -
    have "nat (800 * int k + 1000) - nat (800 * int k) = 1000" by linarith
    moreover have "nat (800 * int k) = 800 * k" by linarith
    ultimately show ?thesis by (simp add: slice_nonneg)
  qed
  then show ?thesis
    by (simp add: chunk_text_def py_range_def CHUNK_SIZE_def CHUNK_OVERLAP_def range_from_800
        n comp_def)
qed

lemma ceil_800: "\<lceil>real L / 800\<rceil> = int ((L + 799) div 800)"
proof -
  have "\<lceil>real L / 800\<rceil> = \<lceil>of_int (int L) / (of_int 800 :: real)\<rceil>" by simp
  also have "\<dots> = - (- int L div 800)" by (rule ceiling_divide_eq_div)
  also have "\<dots> = int ((L + 799) div 800)" by linarith
  finally show ?thesis .
qed

lemma overlap_units_eq:
  "overlap_units s1 w1 s2 w2 = min (s1 + length w1) (s2 + length w2) - max s1 s2"
  by (simp add: overlap_units_def window_positions_def)

lemma fallback_chunks:
  assumes "chunk_text None content CHUNK_SIZE CHUNK_OVERLAP = Inr chunks"
  shows "length chunks = (length content + 799) div 800"
    and "k < length chunks \<Longrightarrow> chunks ! k = take 1000 (drop (800 * k) content)"
    and "k < length chunks \<Longrightarrow> length (chunks ! k) = min 1000 (length content - 800 * k)"
    and "k < length chunks \<Longrightarrow> 800 * k < length content"
proof -
  from assms have c: "chunks = map (\<lambda>k. take 1000 (drop (800 * k) content))
                         [0 ..< (length content + 799) div 800]"
    by (simp add: chunk_text_fallback)
  show "length chunks = (length content + 799) div 800" by (simp add: c)
  show "chunks ! k = take 1000 (drop (800 * k) content)" if "k < length chunks"
    using that by (simp add: c)
  show "length (chunks ! k) = min 1000 (length content - 800 * k)" if "k < length chunks"
    using that by (simp add: c min_def)
  show "800 * k < length content" if "k < length chunks"
    using that by (simp add: c)
qed

text \<open>
  Claim C3 (as amended). In the character fallback, with the default window of 1000 and
  overlap of 200, chunking a text of length \<open>L\<close> returns exactly
  \<open>\<lceil>L / 800\<rceil>\<close> windows; window \<open>k\<close> is the text from position \<open>800 k\<close>, cut at
  1000 characters, so it is never longer than 1000; two consecutive windows share
  as many positions as the later one has, up to 200, and at least one. Every pair but
  the last shares exactly 200.
\<close>

theorem chunk_text_fallback_windows:
  "\<exists>chunks. chunk_text None content CHUNK_SIZE CHUNK_OVERLAP = Inr chunks
     \<and> int (length chunks) = \<lceil>real (length content) / real_of_int (CHUNK_SIZE - CHUNK_OVERLAP)\<rceil>
     \<and> (\<forall>k < length chunks.
           chunks ! k = take 1000 (drop (800 * k) content) \<and> int (length (chunks ! k)) \<le> CHUNK_SIZE)
     \<and> (\<forall>k. Suc k < length chunks \<longrightarrow>
           overlap_units (800 * k) (chunks ! k) (800 * Suc k) (chunks ! Suc k)
             = min 200 (length (chunks ! Suc k))
           \<and> 0 < length (chunks ! Suc k))
     \<and> (\<forall>k. Suc (Suc k) < length chunks \<longrightarrow>
           int (overlap_units (800 * k) (chunks ! k) (800 * Suc k) (chunks ! Suc k)) = CHUNK_OVERLAP)"
proof -
  obtain chunks where ch: "chunk_text None content CHUNK_SIZE CHUNK_OVERLAP = Inr chunks"
    by (simp add: chunk_text_fallback)
  note facts = fallback_chunks [OF ch]
  have count: "int (length chunks) = \<lceil>real (length content) / real_of_int (CHUNK_SIZE - CHUNK_OVERLAP)\<rceil>"
    using ceil_800 [of "length content"] by (simp add: facts(1) CHUNK_SIZE_def CHUNK_OVERLAP_def)
  have win: "chunks ! k = take 1000 (drop (800 * k) content) \<and> int (length (chunks ! k)) \<le> CHUNK_SIZE"
    if "k < length chunks" for k
    using facts(2,3) [OF that] by (simp add: CHUNK_SIZE_def)
  have ov: "overlap_units (800 * k) (chunks ! k) (800 * Suc k) (chunks ! Suc k)
             = min 200 (length (chunks ! Suc k)) \<and> 0 < length (chunks ! Suc k)"
    if "Suc k < length chunks" for k
  proof -
    from that have k: "k < length chunks" by simp
    show ?thesis
      using facts(3) [OF k] facts(3) [OF that] facts(4) [OF that]
      by (simp add: overlap_units_eq) linarith
  qed
  have ov2: "int (overlap_units (800 * k) (chunks ! k) (800 * Suc k) (chunks ! Suc k)) = CHUNK_OVERLAP"
    if "Suc (Suc k) < length chunks" for k
  proof -
    from that have k1: "Suc k < length chunks" by simp
    show ?thesis
      using ov [OF k1] facts(3) [OF k1] facts(4) [OF that]
      by (simp add: CHUNK_OVERLAP_def)
  qed
  show ?thesis using ch count win ov ov2 by blast
qed

theorem chunk_text_fallback_windows_witness:
  "chunk_text None (replicate 1700 (CHR ''a'')) CHUNK_SIZE CHUNK_OVERLAP
     = Inr [replicate 1000 (CHR ''a''), replicate 900 (CHR ''a''), replicate 100 (CHR ''a'')]
   \<and> int (length [replicate 1000 (CHR ''a''), replicate 900 (CHR ''a''), replicate 100 (CHR ''a'')])
       = \<lceil>real (length (replicate 1700 (CHR ''a''))) / real_of_int (CHUNK_SIZE - CHUNK_OVERLAP)\<rceil>
   \<and> int (overlap_units 0 (replicate 1000 (CHR ''a'')) 800 (replicate 900 (CHR ''a''))) = CHUNK_OVERLAP
   \<and> overlap_units 800 (replicate 900 (CHR ''a'')) 1600 (replicate 100 (CHR ''a'')) = 100"
proof -
  let ?t = "replicate 1700 (CHR ''a'')"
  let ?cs = "[replicate 1000 (CHR ''a''), replicate 900 (CHR ''a''), replicate 100 (CHR ''a'')]"
  have up: "[0 ..< (1700 + 799) div 800] = [0, Suc 0, Suc (Suc 0)]"
    by (simp add: upt_conv_Cons)
  then have ev: "chunk_text None ?t CHUNK_SIZE CHUNK_OVERLAP = Inr ?cs"
    by (simp add: chunk_text_fallback)
  from chunk_text_fallback_windows [of ?t] obtain chunks where
    c: "chunk_text None ?t CHUNK_SIZE CHUNK_OVERLAP = Inr chunks"
    and n: "int (length chunks) = \<lceil>real (length ?t) / real_of_int (CHUNK_SIZE - CHUNK_OVERLAP)\<rceil>"
    and o1: "\<forall>k. Suc k < length chunks \<longrightarrow>
           overlap_units (800 * k) (chunks ! k) (800 * Suc k) (chunks ! Suc k)
             = min 200 (length (chunks ! Suc k))
           \<and> 0 < length (chunks ! Suc k)"
    and o2: "\<forall>k. Suc (Suc k) < length chunks \<longrightarrow>
           int (overlap_units (800 * k) (chunks ! k) (800 * Suc k) (chunks ! Suc k)) = CHUNK_OVERLAP"
    by blast
  from c ev have chunks: "chunks = ?cs" by simp
  have a: "int (length ?cs) = \<lceil>real (length ?t) / real_of_int (CHUNK_SIZE - CHUNK_OVERLAP)\<rceil>"
    using n unfolding chunks .
  have b: "int (overlap_units 0 (replicate 1000 (CHR ''a'')) 800 (replicate 900 (CHR ''a'')))
      = CHUNK_OVERLAP"
    using o2 [rule_format, of 0] unfolding chunks by simp
  have d: "overlap_units 800 (replicate 900 (CHR ''a'')) 1600 (replicate 100 (CHR ''a'')) = 100"
    using o1 [rule_format, of "Suc 0"] unfolding chunks by simp
  from ev a b d show ?thesis by blast
qed

text \<open>
  Claim C3 as stated fails: a text of 900 characters gives two windows, and the second
  starts 100 characters before the end, so the two share 100 positions, not 200.
\<close>

theorem chunk_text_last_overlap_counterexample:
  "chunk_text None (replicate 900 (CHR ''a'')) CHUNK_SIZE CHUNK_OVERLAP
     = Inr [replicate 900 (CHR ''a''), replicate 100 (CHR ''a'')]
   \<and> overlap_units 0 (replicate 900 (CHR ''a'')) 800 (replicate 100 (CHR ''a'')) = 100
   \<and> int (overlap_units 0 (replicate 900 (CHR ''a'')) 800 (replicate 100 (CHR ''a''))) \<noteq> CHUNK_OVERLAP"
proof -
  have "[0 ..< (900 + 799) div 800] = [0, Suc 0]"
    by (simp add: upt_conv_Cons)
  then have "chunk_text None (replicate 900 (CHR ''a'')) CHUNK_SIZE CHUNK_OVERLAP
     = Inr [replicate 900 (CHR ''a''), replicate 100 (CHR ''a'')]"
    by (simp add: chunk_text_fallback)
  then show ?thesis
    by (simp add: overlap_units_eq CHUNK_OVERLAP_def)
qed

section \<open>The examples, evaluated\<close>

lemma chunk_text_short:
  assumes "content \<noteq> []" and "length content \<le> 800"
  shows "chunk_text None content CHUNK_SIZE CHUNK_OVERLAP = Inr [content]"
proof -
  have "(length content + 799) div 800 = 1" using assms by (cases content) auto
  then show ?thesis using assms by (simp add: chunk_text_fallback)
qed

lemmas path_defs =
  suffix_def path_name_def path_parts_def path_str_def path_root_def rfind_def lower_def Let_def

lemma read_notes_a: "read_file_content notes_files ''notes/a.md'' = Some ''alpha''"
  by (simp add: read_file_content_def notes_files_def path_defs)

lemma read_notes_a_trailing_slash:
  "read_file_content notes_files ''notes/a.md/'' = Some ''alpha''"
  by (simp add: read_file_content_def notes_files_def path_defs)

lemma read_notes_b: "read_file_content notes_files ''notes/b.md'' = Some ''beta''"
  by (simp add: read_file_content_def notes_files_def path_defs)

lemma read_notes_f: "read_file_content notes_files ''notes/f.txt'' = Some ''zeta''"
  by (simp add: read_file_content_def notes_files_def path_defs)

lemma read_notes_c: "read_file_content notes_files ''notes/c.bin'' = None"
  by (simp add: read_file_content_def notes_files_def path_defs)

lemma suffix_notes_c: "lower (suffix ''notes/c.bin'') = ''.bin''"
  by (simp add: path_defs)

lemma path_str_notes_c: "path_str ''notes/c.bin'' = ''notes/c.bin''"
  by (simp add: path_defs)

lemma path_str_notes_e: "path_str ''notes/e.md'' = ''notes/e.md''"
  by (simp add: path_defs)

lemma read_notes_e: "read_file_content notes_files ''notes/e.md'' = None"
  by (simp add: read_file_content_def notes_files_def path_defs)

lemma index_notes_a_outage:
  "index_file (memory_env notes_files outage_provider) ''notes/a.md'' ''id1''
     \<lparr>table = None, calls = 0\<rparr> = (False, \<lparr>table = None, calls = Suc 0\<rparr>)"
  by (simp add: index_file_def read_notes_a memory_env_def chunk_text_short
      create_embeddings_def outage_provider_def)

lemma index_notes_b_after_outage:
  "index_file (memory_env notes_files outage_provider) ''notes/b.md'' ''id2''
     \<lparr>table = None, calls = Suc 0\<rparr>
   = (True, \<lparr>table = Some [\<lparr>row_vector = [1], row_text = ''beta'', row_file_id = ''id2'',
                             row_file_path = ''notes/b.md'', row_chunk_index = 0\<rparr>],
             calls = Suc (Suc 0)\<rparr>)"
  by (simp add: index_file_def read_notes_b memory_env_def chunk_text_short
      create_embeddings_def outage_provider_def unit_provider_def memory_add_def
      enumerate_eq_zip upt_conv_Cons)

lemma index_notes_a_unit:
  "index_file (memory_env notes_files unit_provider) ''notes/a.md'' ''id1''
     \<lparr>table = None, calls = 0\<rparr>
   = (True, \<lparr>table = Some [\<lparr>row_vector = [1], row_text = ''alpha'', row_file_id = ''id1'',
                             row_file_path = ''notes/a.md'', row_chunk_index = 0\<rparr>],
             calls = Suc 0\<rparr>)"
  by (simp add: index_file_def read_notes_a memory_env_def chunk_text_short
      create_embeddings_def unit_provider_def memory_add_def enumerate_eq_zip upt_conv_Cons)

lemma index_notes_c:
  "index_file (memory_env notes_files unit_provider) ''notes/c.bin'' ''id3'' w = (False, w)"
  by (simp add: index_file_def read_notes_c memory_env_def)

lemma index_notes_e:
  "index_file (memory_env notes_files unit_provider) ''notes/e.md'' ''id5'' w = (False, w)"
  by (simp add: index_file_def read_notes_e memory_env_def)

lemma outage_batch:
  "index_files (memory_env notes_files outage_provider) [''notes/a.md'', ''notes/b.md'']
       (Some [''id1'', ''id2'']) \<lparr>table = None, calls = 0\<rparr>
     = (Inr \<lparr>total = 2, success = 1, failed = 1, failed_files = [''notes/a.md'']\<rparr>,
        \<lparr>table = Some [\<lparr>row_vector = [1], row_text = ''beta'', row_file_id = ''id2'',
                        row_file_path = ''notes/b.md'', row_chunk_index = 0\<rparr>],
         calls = 2\<rparr>)"
  by (simp add: index_files_def index_notes_a_outage index_notes_b_after_outage)

lemma outage_first_call:
  "embeddings_create (memory_env notes_files outage_provider) 0 [''alpha''] = Inl ExternalFailure"
  by (simp add: memory_env_def outage_provider_def)

lemma index_notes_a_before_outage:
  "index_file (memory_env notes_files (outage_at 1)) ''notes/a.md'' ''id1''
     \<lparr>table = None, calls = 0\<rparr>
   = (True, \<lparr>table = Some [\<lparr>row_vector = [1], row_text = ''alpha'', row_file_id = ''id1'',
                             row_file_path = ''notes/a.md'', row_chunk_index = 0\<rparr>],
             calls = Suc 0\<rparr>)"
  by (simp add: index_file_def read_notes_a memory_env_def chunk_text_short
      create_embeddings_def outage_at_def unit_provider_def memory_add_def enumerate_eq_zip
      upt_conv_Cons)

lemma index_notes_f_after_outage:
  "index_file (memory_env notes_files (outage_at 1)) ''notes/f.txt'' ''id6''
     \<lparr>table = Some [\<lparr>row_vector = [1], row_text = ''alpha'', row_file_id = ''id1'',
                     row_file_path = ''notes/a.md'', row_chunk_index = 0\<rparr>],
      calls = Suc (Suc 0)\<rparr>
   = (True, \<lparr>table = Some [\<lparr>row_vector = [1], row_text = ''alpha'', row_file_id = ''id1'',
                             row_file_path = ''notes/a.md'', row_chunk_index = 0\<rparr>,
                            \<lparr>row_vector = [1], row_text = ''zeta'', row_file_id = ''id6'',
                             row_file_path = ''notes/f.txt'', row_chunk_index = 0\<rparr>],
             calls = Suc (Suc (Suc 0))\<rparr>)"
  by (simp add: index_file_def read_notes_f memory_env_def chunk_text_short
      create_embeddings_def outage_at_def unit_provider_def memory_add_def enumerate_eq_zip
      upt_conv_Cons)

lemma outage_second_call:
  "embeddings_create (memory_env notes_files (outage_at 1)) 1 [''beta''] = Inl ExternalFailure"
  by (simp add: memory_env_def outage_at_def)

lemma batch_before_outage:
  "index_files (memory_env notes_files (outage_at 1)) [''notes/a.md''] (Some [''id1''])
     \<lparr>table = None, calls = 0\<rparr>
   = (Inr \<lparr>total = 1, success = 1, failed = 0, failed_files = []\<rparr>,
      \<lparr>table = Some [\<lparr>row_vector = [1], row_text = ''alpha'', row_file_id = ''id1'',
                      row_file_path = ''notes/a.md'', row_chunk_index = 0\<rparr>],
       calls = 1\<rparr>)"
  using index_notes_a_before_outage by (simp add: index_files_def)

lemma batch_after_outage:
  "index_files (memory_env notes_files (outage_at 1)) [''notes/f.txt''] (Some [''id6''])
     \<lparr>table = Some [\<lparr>row_vector = [1], row_text = ''alpha'', row_file_id = ''id1'',
                     row_file_path = ''notes/a.md'', row_chunk_index = 0\<rparr>],
      calls = 2\<rparr>
   = (Inr \<lparr>total = 1, success = 1, failed = 0, failed_files = []\<rparr>,
      \<lparr>table = Some [\<lparr>row_vector = [1], row_text = ''alpha'', row_file_id = ''id1'',
                      row_file_path = ''notes/a.md'', row_chunk_index = 0\<rparr>,
                     \<lparr>row_vector = [1], row_text = ''zeta'', row_file_id = ''id6'',
                      row_file_path = ''notes/f.txt'', row_chunk_index = 0\<rparr>],
       calls = 3\<rparr>)"
  using index_notes_f_after_outage by (simp add: index_files_def numeral_2_eq_2 numeral_3_eq_3)

lemma unsupported_batch:
  "index_files (memory_env notes_files unit_provider) [''notes/c.bin''] (Some [''id3''])
       \<lparr>table = None, calls = 0\<rparr>
     = (Inr \<lparr>total = 1, success = 0, failed = 1, failed_files = [''notes/c.bin'']\<rparr>,
        \<lparr>table = None, calls = 0\<rparr>)"
  by (simp add: index_files_def index_notes_c)

lemma missing_batch:
  "index_files (memory_env notes_files unit_provider) [''notes/e.md''] (Some [''id5''])
       \<lparr>table = None, calls = 0\<rparr>
     = (Inr \<lparr>total = 1, success = 0, failed = 1, failed_files = [''notes/e.md'']\<rparr>,
        \<lparr>table = None, calls = 0\<rparr>)"
  by (simp add: index_files_def index_notes_e)

lemma notes_c_entry: "notes_files ''notes/c.bin'' = Content ''gamma''"
  by (simp add: notes_files_def)

lemma notes_e_entry: "notes_files ''notes/e.md'' = Missing"
  by (simp add: notes_files_def)

lemma memory_delete_id1:
  "table_delete (memory_env notes_files unit_provider) True
     (''file_id = '' @ [CHR 0x27] @ ''id1'' @ [CHR 0x27])
     [\<lparr>row_vector = [1], row_text = ''alpha'', row_file_id = ''id1'',
       row_file_path = ''notes/a.md'', row_chunk_index = 0\<rparr>] = Inr []"
  by (simp add: memory_env_def memory_delete_def)

lemma memory_delete_empty:
  "table_delete (memory_env notes_files unit_provider) True p [] = Inr []"
  by (simp add: memory_env_def memory_delete_def)

lemma memory_delete_id9:
  "table_delete (memory_env notes_files unit_provider) True
     (''file_id = '' @ [CHR 0x27] @ ''id9'' @ [CHR 0x27])
     [\<lparr>row_vector = [1], row_text = ''alpha'', row_file_id = ''id1'',
       row_file_path = ''notes/a.md'', row_chunk_index = 0\<rparr>]
   = Inr [\<lparr>row_vector = [1], row_text = ''alpha'', row_file_id = ''id1'',
            row_file_path = ''notes/a.md'', row_chunk_index = 0\<rparr>]"
  by (simp add: memory_env_def memory_delete_def)

lemma remove_first:
  "delete_indexed_file (memory_env notes_files unit_provider) ''id1''
     \<lparr>table = Some [\<lparr>row_vector = [1], row_text = ''alpha'', row_file_id = ''id1'',
                     row_file_path = ''notes/a.md'', row_chunk_index = 0\<rparr>], calls = 1\<rparr>
     [\<lparr>fs_id = ''id1'', fs_name = ''a.md'', fs_path = ''notes/a.md'', fs_status = SYNCED\<rparr>]
   = (Deleted ''id1'', \<lparr>table = Some [], calls = 1\<rparr>,
      [\<lparr>fs_id = ''id1'', fs_name = ''a.md'', fs_path = ''notes/a.md'', fs_status = PENDING\<rparr>])"
  by (simp add: delete_indexed_file_def delete_file_from_index_def memory_delete_id1
      get_file_status_def update_file_status_def del: append.simps)

lemma remove_second:
  "delete_indexed_file (memory_env notes_files unit_provider) ''id1''
     \<lparr>table = Some [], calls = 1\<rparr>
     [\<lparr>fs_id = ''id1'', fs_name = ''a.md'', fs_path = ''notes/a.md'', fs_status = PENDING\<rparr>]
   = (Deleted ''id1'', \<lparr>table = Some [], calls = 1\<rparr>,
      [\<lparr>fs_id = ''id1'', fs_name = ''a.md'', fs_path = ''notes/a.md'', fs_status = PENDING\<rparr>])"
  by (simp add: delete_indexed_file_def delete_file_from_index_def memory_delete_empty
      get_file_status_def update_file_status_def del: append.simps)

lemma remove_never_indexed:
  "delete_indexed_file (memory_env notes_files unit_provider) ''id9''
     \<lparr>table = Some [\<lparr>row_vector = [1], row_text = ''alpha'', row_file_id = ''id1'',
                     row_file_path = ''notes/a.md'', row_chunk_index = 0\<rparr>], calls = 1\<rparr>
     [\<lparr>fs_id = ''id1'', fs_name = ''a.md'', fs_path = ''notes/a.md'', fs_status = SYNCED\<rparr>]
   = (Deleted ''id9'',
      \<lparr>table = Some [\<lparr>row_vector = [1], row_text = ''alpha'', row_file_id = ''id1'',
                     row_file_path = ''notes/a.md'', row_chunk_index = 0\<rparr>], calls = 1\<rparr>,
      [\<lparr>fs_id = ''id1'', fs_name = ''a.md'', fs_path = ''notes/a.md'', fs_status = SYNCED\<rparr>])"
  by (simp add: delete_indexed_file_def delete_file_from_index_def memory_delete_id9
      get_file_status_def update_file_status_def del: append.simps)

lemma search_two_rows:
  "fst (search_similar (memory_env notes_files unit_provider) ''query'' 2
     \<lparr>table = Some [\<lparr>row_vector = [3], row_text = ''far'', row_file_id = ''id2'',
                     row_file_path = ''notes/b.md'', row_chunk_index = 0\<rparr>,
                    \<lparr>row_vector = [0], row_text = ''near'', row_file_id = ''id1'',
                     row_file_path = ''notes/a.md'', row_chunk_index = 0\<rparr>], calls = 0\<rparr>)
   = [\<lparr>res_text = ''near'', res_file_path = ''notes/a.md'', res_file_id = ''id1'',
       res_chunk_index = 0, res_score = 1\<rparr>,
      \<lparr>res_text = ''far'', res_file_path = ''notes/b.md'', res_file_id = ''id2'',
       res_chunk_index = 0, res_score = 4\<rparr>]"
  by (simp add: search_similar_def create_embeddings_def memory_env_def unit_provider_def
      memory_search_def l2_distance_def)

section \<open>Batches\<close>

lemma length_file_outcomes: "length (file_outcomes env ps w) = length ps"
  by (induction env ps w rule: file_outcomes.induct) (auto split: prod.splits)

lemma index_files_loop_eq:
  "index_files_loop env ps sc fc ff w =
     ((sc + length (filter (\<lambda>ok. ok) (file_outcomes env ps w)),
       fc + length (filter (\<lambda>ok. \<not> ok) (file_outcomes env ps w)),
       ff @ map fst (filter (\<lambda>(p, ok). \<not> ok) (zip (map fst ps) (file_outcomes env ps w)))),
      batch_world env ps w)"
proof (induction ps arbitrary: sc fc ff w)
  case Nil
  show ?case by simp
next
  case (Cons a ps)
  obtain p i where a: "a = (p, i)" by (cases a)
  obtain ok w' where r: "index_file env p i w = (ok, w')" by (cases "index_file env p i w")
  show ?case
    by (cases ok) (simp_all add: a r Cons.IH)
qed

lemma file_outcomes_append:
  "file_outcomes env (pre @ post) w
     = file_outcomes env pre w @ file_outcomes env post (batch_world env pre w)"
  by (induction env pre w rule: file_outcomes.induct) (auto split: prod.splits)

lemma count_split: "length (filter (\<lambda>ok. ok) os) + length (filter (\<lambda>ok. \<not> ok) os) = length os"
  by (induction os) auto

lemma length_failed: 
  "length ps = length os \<Longrightarrow>
   length (filter (\<lambda>(p, ok). \<not> ok) (zip ps os)) = length (filter (\<lambda>ok. \<not> ok) os)"
  by (induction ps os rule: list_induct2) auto

lemma index_files_result:
  assumes "length file_paths = length file_ids"
  shows "index_files env file_paths (Some file_ids) w =
      (Inr \<lparr>total = length file_paths,
            success = length (filter (\<lambda>ok. ok) (file_outcomes env (zip file_paths file_ids) w)),
            failed = length (filter (\<lambda>ok. \<not> ok) (file_outcomes env (zip file_paths file_ids) w)),
            failed_files = map fst (filter (\<lambda>(p, ok). \<not> ok)
              (zip file_paths (file_outcomes env (zip file_paths file_ids) w)))\<rparr>,
       batch_world env (zip file_paths file_ids) w)"
proof -
  have "map fst (zip file_paths file_ids) = file_paths"
    using assms by (simp add: map_fst_zip)
  then show ?thesis
    using assms by (simp add: index_files_def index_files_loop_eq)
qed

text \<open>
  Claim C7. A call of \<open>index_files\<close> on \<open>n\<close> paths with \<open>n\<close> ids returns an
  aggregate (it does not raise) with \<open>total = n\<close>, \<open>success + failed = total\<close>,
  as many failed paths as \<open>failed\<close> counts, and \<open>failed_files\<close> the paths, in
  order, of exactly the files whose \<open>index_file\<close> call returned \<open>False\<close>.
\<close>

theorem index_files_aggregate:
  assumes "length file_paths = length file_ids"
  shows "\<exists>r w'. index_files env file_paths (Some file_ids) w = (Inr r, w')
     \<and> total r = length file_paths
     \<and> success r + failed r = total r
     \<and> length (failed_files r) = failed r
     \<and> failed_files r
         = map fst (filter (\<lambda>(p, ok). \<not> ok)
             (zip file_paths (file_outcomes env (zip file_paths file_ids) w)))
     \<and> success r = length (filter (\<lambda>ok. ok) (file_outcomes env (zip file_paths file_ids) w))"
proof -
  let ?os = "file_outcomes env (zip file_paths file_ids) w"
  have len: "length ?os = length file_paths"
    using assms by (simp add: length_file_outcomes)
  have "index_files env file_paths (Some file_ids) w =
      (Inr \<lparr>total = length file_paths,
            success = length (filter (\<lambda>ok. ok) ?os),
            failed = length (filter (\<lambda>ok. \<not> ok) ?os),
            failed_files = map fst (filter (\<lambda>(p, ok). \<not> ok) (zip file_paths ?os))\<rparr>,
       batch_world env (zip file_paths file_ids) w)"
    using assms by (rule index_files_result)
  moreover have "length (filter (\<lambda>ok. ok) ?os) + length (filter (\<lambda>ok. \<not> ok) ?os)
      = length file_paths"
    using count_split [of ?os] len by simp
  moreover have "length (map fst (filter (\<lambda>(p, ok). \<not> ok) (zip file_paths ?os)))
      = length (filter (\<lambda>ok. \<not> ok) ?os)"
    using length_failed [of file_paths ?os] len by simp
  ultimately show ?thesis by simp
qed

theorem index_files_aggregate_witness:
  "length [''notes/a.md'', ''notes/c.bin''] = length [''id1'', ''id3'']
   \<and> file_outcomes (memory_env notes_files unit_provider)
        (zip [''notes/a.md'', ''notes/c.bin''] [''id1'', ''id3'']) \<lparr>table = None, calls = 0\<rparr>
      = [True, False]
   \<and> fst (index_files (memory_env notes_files unit_provider) [''notes/a.md'', ''notes/c.bin'']
        (Some [''id1'', ''id3'']) \<lparr>table = None, calls = 0\<rparr>)
      = Inr \<lparr>total = 2, success = 1, failed = 1, failed_files = [''notes/c.bin'']\<rparr>"
proof -
  let ?env = "memory_env notes_files unit_provider"
  let ?w = "\<lparr>table = None, calls = 0\<rparr>"
  have l: "length [''notes/a.md'', ''notes/c.bin''] = length [''id1'', ''id3'']" by simp
  have o: "file_outcomes ?env (zip [''notes/a.md'', ''notes/c.bin''] [''id1'', ''id3'']) ?w
      = [True, False]"
    by (simp add: index_notes_a_unit index_notes_c)
  from index_files_aggregate [OF l, of ?env ?w] obtain r w' where
    i: "index_files ?env [''notes/a.md'', ''notes/c.bin''] (Some [''id1'', ''id3'']) ?w = (Inr r, w')"
    and t: "total r = length [''notes/a.md'', ''notes/c.bin'']"
    and f: "length (failed_files r) = failed r"
    and ff: "failed_files r = map fst (filter (\<lambda>(p, ok). \<not> ok)
             (zip [''notes/a.md'', ''notes/c.bin'']
                (file_outcomes ?env (zip [''notes/a.md'', ''notes/c.bin''] [''id1'', ''id3'']) ?w)))"
    and s: "success r = length (filter (\<lambda>ok. ok)
                (file_outcomes ?env (zip [''notes/a.md'', ''notes/c.bin''] [''id1'', ''id3'']) ?w))"
    by blast
  have "r = \<lparr>total = 2, success = 1, failed = 1, failed_files = [''notes/c.bin'']\<rparr>"
    using t f ff s unfolding o by (cases r) simp
  with i have "fst (index_files ?env [''notes/a.md'', ''notes/c.bin'']
        (Some [''id1'', ''id3'']) ?w)
      = Inr \<lparr>total = 2, success = 1, failed = 1, failed_files = [''notes/c.bin'']\<rparr>"
    by simp
  with l o show ?thesis by blast
qed

lemma read_file_content_None:
  "read_file_content fs p = None \<longleftrightarrow>
     fs (path_str p) = Missing
     \<or> lower (suffix p) \<notin> set [''.md'', ''.txt'', ''.py'', ''.js'', ''.ts'', ''.json'',
                                  ''.yaml'', ''.yml'', ''.csv'']
     \<or> fs (path_str p) = Unreadable"
  by (cases "fs (path_str p)") (auto simp: read_file_content_def Let_def)

lemma index_file_unread:
  assumes "read_file_content (files env) p = None"
  shows "index_file env p i w = (False, w)"
  using assms by (simp add: index_file_def)

text \<open>
  Claim C5 (as amended). \<open>read_file_content\<close> returns nothing exactly for a file that
  is missing, has an extension outside the allow-list, or cannot be read, where the file
  is the one at the path as \<open>pathlib\<close> normalises it and the extension is that of its
  last component. For every such
  file \<open>index_file\<close> returns \<open>False\<close> and changes nothing (no provider call, no
  change of the table), and the batch records it as failed: the loop counts it in
  \<open>failed\<close> and appends its path to \<open>failed_files\<close>.
\<close>

theorem unread_file_recorded_failed:
  "(read_file_content (files env) p = None \<longleftrightarrow>
      files env (path_str p) = Missing
      \<or> lower (suffix p) \<notin> set [''.md'', ''.txt'', ''.py'', ''.js'', ''.ts'', ''.json'',
                                   ''.yaml'', ''.yml'', ''.csv'']
      \<or> files env (path_str p) = Unreadable)
   \<and> (read_file_content (files env) p = None \<longrightarrow>
        index_file env p i w = (False, w)
        \<and> index_files_loop env ((p, i) # rest) sc fc ff w
            = index_files_loop env rest sc (fc + 1) (ff @ [p]) w
        \<and> index_files env [p] (Some [i]) w
            = (Inr \<lparr>total = 1, success = 0, failed = 1, failed_files = [p]\<rparr>, w))"
  using read_file_content_None [of "files env" p] index_file_unread [of env p i w]
  by (auto simp: index_files_def)

theorem unread_file_recorded_failed_witness:
  "read_file_content (files (memory_env notes_files unit_provider)) ''notes/a.md/'' = Some ''alpha''
   \<and> read_file_content (files (memory_env notes_files unit_provider)) ''notes/c.bin'' = None
   \<and> index_file (memory_env notes_files unit_provider) ''notes/c.bin'' ''id3''
        \<lparr>table = None, calls = 0\<rparr> = (False, \<lparr>table = None, calls = 0\<rparr>)
   \<and> index_files (memory_env notes_files unit_provider) [''notes/c.bin''] (Some [''id3''])
        \<lparr>table = None, calls = 0\<rparr>
      = (Inr \<lparr>total = 1, success = 0, failed = 1, failed_files = [''notes/c.bin'']\<rparr>,
         \<lparr>table = None, calls = 0\<rparr>)"
proof -
  have h: "read_file_content (files (memory_env notes_files unit_provider)) ''notes/c.bin'' = None"
    by (simp add: memory_env_def read_notes_c)
  have g: "read_file_content (files (memory_env notes_files unit_provider)) ''notes/a.md/''
      = Some ''alpha''"
    by (simp add: memory_env_def read_notes_a_trailing_slash)
  show ?thesis
    using g h unread_file_recorded_failed
      [of "memory_env notes_files unit_provider" "''notes/c.bin''" "''id3''"
        "\<lparr>table = None, calls = 0\<rparr>" "[]" 0 0 "[]"]
    by blast
qed

text \<open>
  Claim C5 as stated fails: a file with an extension outside the allow-list, and a file
  that does not exist, are each counted in \<open>failed\<close> and listed in \<open>failed_files\<close>.
\<close>

theorem unsupported_or_missing_file_failed_counterexample:
  "path_str ''notes/c.bin'' = ''notes/c.bin''
   \<and> notes_files ''notes/c.bin'' = Content ''gamma''
   \<and> lower (suffix ''notes/c.bin'') = ''.bin''
   \<and> index_files (memory_env notes_files unit_provider) [''notes/c.bin''] (Some [''id3''])
       \<lparr>table = None, calls = 0\<rparr>
     = (Inr \<lparr>total = 1, success = 0, failed = 1, failed_files = [''notes/c.bin'']\<rparr>,
        \<lparr>table = None, calls = 0\<rparr>)
   \<and> path_str ''notes/e.md'' = ''notes/e.md''
   \<and> notes_files ''notes/e.md'' = Missing
   \<and> index_files (memory_env notes_files unit_provider) [''notes/e.md''] (Some [''id5''])
       \<lparr>table = None, calls = 0\<rparr>
     = (Inr \<lparr>total = 1, success = 0, failed = 1, failed_files = [''notes/e.md'']\<rparr>,
        \<lparr>table = None, calls = 0\<rparr>)"
  using path_str_notes_c notes_c_entry suffix_notes_c unsupported_batch
    path_str_notes_e notes_e_entry missing_batch
  by blast

lemma index_file_embed_fails:
  assumes "read_file_content (files env) p = Some content" and "content \<noteq> []"
    and "chunk_text (tiktoken env) content CHUNK_SIZE CHUNK_OVERLAP = Inr chunks"
    and "chunks \<noteq> []"
    and "embeddings_create env (calls w) chunks = Inl e"
  shows "index_file env p i w = (False, w\<lparr>calls := Suc (calls w)\<rparr>)"
  using assms by (simp add: index_file_def create_embeddings_def)

lemma batch_world_append:
  "batch_world env (xs @ ys) v = batch_world env ys (batch_world env xs v)"
  by (induction env xs v rule: batch_world.induct) auto

lemma index_files_pairs:
  "index_files env (map fst ps) (Some (map snd ps)) w =
      (Inr \<lparr>total = length ps,
            success = length (filter (\<lambda>ok. ok) (file_outcomes env ps w)),
            failed = length (filter (\<lambda>ok. \<not> ok) (file_outcomes env ps w)),
            failed_files = map fst (filter (\<lambda>(p, ok). \<not> ok)
              (zip (map fst ps) (file_outcomes env ps w)))\<rparr>,
       batch_world env ps w)"
  using index_files_result [of "map fst ps" "map snd ps" env w]
  by (simp add: zip_map_fst_snd)

lemma failed_paths_append:
  assumes "length ps = length os"
  shows "map fst (filter (\<lambda>(p, ok). \<not> ok) (zip (ps @ q # qs) (os @ False # os')))
       = map fst (filter (\<lambda>(p, ok). \<not> ok) (zip ps os))
         @ q # map fst (filter (\<lambda>(p, ok). \<not> ok) (zip qs os'))"
  using assms by simp

text \<open>
  Claim C4 (as amended). When the embedding call fails for one file of a batch, for
  whatever reason, \<open>index_file\<close> catches the exception: that file gets the outcome
  \<open>False\<close>, and of the world only the count of provider calls changes. The failure
  does not leave the batch. \<open>index_files\<close> returns an aggregate in which the files
  before the failing one count as in a batch of their own, the failing file is counted
  and listed once as failed, and the files after it count as in a batch of their own
  run from the world the failed call left: each file has the outcome of its own
  \<open>index_file\<close> call.
\<close>

theorem embedding_failure_fails_one_file:
  assumes "read_file_content (files env) p = Some content" and "content \<noteq> []"
    and "chunk_text (tiktoken env) content CHUNK_SIZE CHUNK_OVERLAP = Inr chunks"
    and "chunks \<noteq> []"
    and "length file_paths = length file_ids"
    and "zip file_paths file_ids = pre @ (p, i) # post"
    and "index_files env (map fst pre) (Some (map snd pre)) w = (Inr r1, w1)"
    and "embeddings_create env (calls w1) chunks = Inl e"
  shows "index_file env p i w1 = (False, w1\<lparr>calls := Suc (calls w1)\<rparr>)
     \<and> failed_files r1
         = map fst (filter (\<lambda>(q, ok). \<not> ok) (zip (map fst pre) (file_outcomes env pre w)))
     \<and> success r1 = length (filter (\<lambda>ok. ok) (file_outcomes env pre w))
     \<and> (\<exists>r2 w2.
          index_files env (map fst post) (Some (map snd post)) (w1\<lparr>calls := Suc (calls w1)\<rparr>)
            = (Inr r2, w2)
          \<and> failed_files r2
              = map fst (filter (\<lambda>(q, ok). \<not> ok)
                  (zip (map fst post) (file_outcomes env post (w1\<lparr>calls := Suc (calls w1)\<rparr>))))
          \<and> success r2
              = length (filter (\<lambda>ok. ok) (file_outcomes env post (w1\<lparr>calls := Suc (calls w1)\<rparr>)))
          \<and> index_files env file_paths (Some file_ids) w
              = (Inr \<lparr>total = length file_paths,
                      success = success r1 + success r2,
                      failed = failed r1 + 1 + failed r2,
                      failed_files = failed_files r1 @ p # failed_files r2\<rparr>, w2))"
proof -
  let ?w1' = "w1\<lparr>calls := Suc (calls w1)\<rparr>"
  let ?o1 = "file_outcomes env pre w"
  let ?o2 = "file_outcomes env post ?w1'"
  let ?r2 = "\<lparr>total = length post,
            success = length (filter (\<lambda>ok. ok) ?o2),
            failed = length (filter (\<lambda>ok. \<not> ok) ?o2),
            failed_files = map fst (filter (\<lambda>(q, ok). \<not> ok) (zip (map fst post) ?o2))\<rparr>"
  from assms(7) have r1: "r1 = \<lparr>total = length pre,
            success = length (filter (\<lambda>ok. ok) ?o1),
            failed = length (filter (\<lambda>ok. \<not> ok) ?o1),
            failed_files = map fst (filter (\<lambda>(q, ok). \<not> ok) (zip (map fst pre) ?o1))\<rparr>"
    and w1: "w1 = batch_world env pre w"
    by (simp_all add: index_files_pairs)
  have f: "index_file env p i w1 = (False, ?w1')"
    using assms(1-4,8) by (rule index_file_embed_fails)
  have post: "index_files env (map fst post) (Some (map snd post)) ?w1'
      = (Inr ?r2, batch_world env post ?w1')"
    by (rule index_files_pairs)
  have paths: "file_paths = map fst pre @ p # map fst post"
  proof -
    have "file_paths = map fst (zip file_paths file_ids)"
      using assms(5) by (simp add: map_fst_zip)
    then show ?thesis by (simp add: assms(6))
  qed
  have os: "file_outcomes env (zip file_paths file_ids) w = ?o1 @ False # ?o2"
    using f by (simp add: assms(6) file_outcomes_append w1)
  have bw: "batch_world env (zip file_paths file_ids) w = batch_world env post ?w1'"
    using f by (simp add: assms(6) batch_world_append w1)
  have len: "length (map fst pre) = length ?o1"
    by (simp add: length_file_outcomes)
  have whole: "index_files env file_paths (Some file_ids) w
      = (Inr \<lparr>total = length file_paths,
              success = success r1 + success ?r2,
              failed = failed r1 + 1 + failed ?r2,
              failed_files = failed_files r1 @ p # failed_files ?r2\<rparr>,
         batch_world env post ?w1')"
    unfolding index_files_result [OF assms(5)] os bw
    using failed_paths_append [OF len, of p "map fst post" ?o2]
    by (simp add: r1 paths)
  show ?thesis
    using f post whole by (simp add: r1)
qed

theorem embedding_failure_fails_one_file_witness:
  "index_files (memory_env notes_files (outage_at 1)) [''notes/a.md''] (Some [''id1''])
     \<lparr>table = None, calls = 0\<rparr>
   = (Inr \<lparr>total = 1, success = 1, failed = 0, failed_files = []\<rparr>,
      \<lparr>table = Some [\<lparr>row_vector = [1], row_text = ''alpha'', row_file_id = ''id1'',
                      row_file_path = ''notes/a.md'', row_chunk_index = 0\<rparr>],
       calls = 1\<rparr>)
   \<and> read_file_content (files (memory_env notes_files (outage_at 1))) ''notes/b.md'' = Some ''beta''
   \<and> chunk_text (tiktoken (memory_env notes_files (outage_at 1))) ''beta'' CHUNK_SIZE CHUNK_OVERLAP
       = Inr [''beta'']
   \<and> embeddings_create (memory_env notes_files (outage_at 1)) 1 [''beta''] = Inl ExternalFailure
   \<and> index_files (memory_env notes_files (outage_at 1)) [''notes/f.txt''] (Some [''id6''])
     \<lparr>table = Some [\<lparr>row_vector = [1], row_text = ''alpha'', row_file_id = ''id1'',
                     row_file_path = ''notes/a.md'', row_chunk_index = 0\<rparr>],
      calls = 2\<rparr>
   = (Inr \<lparr>total = 1, success = 1, failed = 0, failed_files = []\<rparr>,
      \<lparr>table = Some [\<lparr>row_vector = [1], row_text = ''alpha'', row_file_id = ''id1'',
                      row_file_path = ''notes/a.md'', row_chunk_index = 0\<rparr>,
                     \<lparr>row_vector = [1], row_text = ''zeta'', row_file_id = ''id6'',
                      row_file_path = ''notes/f.txt'', row_chunk_index = 0\<rparr>],
       calls = 3\<rparr>)
   \<and> index_files (memory_env notes_files (outage_at 1))
       [''notes/a.md'', ''notes/b.md'', ''notes/f.txt''] (Some [''id1'', ''id2'', ''id6''])
       \<lparr>table = None, calls = 0\<rparr>
   = (Inr \<lparr>total = 3, success = 2, failed = 1, failed_files = [''notes/b.md'']\<rparr>,
      \<lparr>table = Some [\<lparr>row_vector = [1], row_text = ''alpha'', row_file_id = ''id1'',
                      row_file_path = ''notes/a.md'', row_chunk_index = 0\<rparr>,
                     \<lparr>row_vector = [1], row_text = ''zeta'', row_file_id = ''id6'',
                      row_file_path = ''notes/f.txt'', row_chunk_index = 0\<rparr>],
       calls = 3\<rparr>)"
proof -
  let ?env = "memory_env notes_files (outage_at 1)"
  let ?w = "\<lparr>table = None, calls = 0\<rparr>"
  let ?rowa = "\<lparr>row_vector = [1], row_text = ''alpha'', row_file_id = ''id1'',
                row_file_path = ''notes/a.md'', row_chunk_index = 0\<rparr>"
  let ?w1 = "\<lparr>table = Some [?rowa], calls = 1\<rparr>"
  let ?r1 = "\<lparr>total = 1, success = 1, failed = 0, failed_files = []\<rparr>"
  have r: "read_file_content (files ?env) ''notes/b.md'' = Some ''beta''"
    by (simp add: memory_env_def read_notes_b)
  have c: "chunk_text (tiktoken ?env) ''beta'' CHUNK_SIZE CHUNK_OVERLAP = Inr [''beta'']"
    by (simp add: memory_env_def chunk_text_short)
  have n1: "''beta'' \<noteq> []" and n2: "[''beta''] \<noteq> []" by simp_all
  have l: "length [''notes/a.md'', ''notes/b.md'', ''notes/f.txt'']
      = length [''id1'', ''id2'', ''id6'']" by simp
  have z: "zip [''notes/a.md'', ''notes/b.md'', ''notes/f.txt''] [''id1'', ''id2'', ''id6'']
      = [(''notes/a.md'', ''id1'')] @ (''notes/b.md'', ''id2'') # [(''notes/f.txt'', ''id6'')]"
    by simp
  have pre: "index_files ?env (map fst [(''notes/a.md'', ''id1'')])
      (Some (map snd [(''notes/a.md'', ''id1'')])) ?w = (Inr ?r1, ?w1)"
    using batch_before_outage by simp
  have e: "embeddings_create ?env (calls ?w1) [''beta''] = Inl ExternalFailure"
    using outage_second_call by simp
  have w1': "?w1\<lparr>calls := Suc (calls ?w1)\<rparr> = \<lparr>table = Some [?rowa], calls = 2\<rparr>"
    by simp
  from embedding_failure_fails_one_file [OF r n1 c n2 l z pre e] obtain r2 w2 where
    p: "index_files ?env (map fst [(''notes/f.txt'', ''id6'')])
          (Some (map snd [(''notes/f.txt'', ''id6'')])) (?w1\<lparr>calls := Suc (calls ?w1)\<rparr>)
        = (Inr r2, w2)"
    and whole: "index_files ?env [''notes/a.md'', ''notes/b.md'', ''notes/f.txt'']
          (Some [''id1'', ''id2'', ''id6'']) ?w
        = (Inr \<lparr>total = length [''notes/a.md'', ''notes/b.md'', ''notes/f.txt''],
                success = success ?r1 + success r2,
                failed = failed ?r1 + 1 + failed r2,
                failed_files = failed_files ?r1 @ ''notes/b.md'' # failed_files r2\<rparr>, w2)"
    by blast
  from p have "index_files ?env [''notes/f.txt''] (Some [''id6''])
      \<lparr>table = Some [?rowa], calls = 2\<rparr> = (Inr r2, w2)"
    unfolding w1' by simp
  with batch_after_outage have r2: "r2 = \<lparr>total = 1, success = 1, failed = 0, failed_files = []\<rparr>"
    and w2: "w2 = \<lparr>table = Some [?rowa,
                     \<lparr>row_vector = [1], row_text = ''zeta'', row_file_id = ''id6'',
                      row_file_path = ''notes/f.txt'', row_chunk_index = 0\<rparr>], calls = 3\<rparr>"
    by simp_all
  have final: "index_files ?env [''notes/a.md'', ''notes/b.md'', ''notes/f.txt'']
          (Some [''id1'', ''id2'', ''id6'']) ?w
        = (Inr \<lparr>total = 3, success = 2, failed = 1, failed_files = [''notes/b.md'']\<rparr>,
           \<lparr>table = Some [?rowa,
                     \<lparr>row_vector = [1], row_text = ''zeta'', row_file_id = ''id6'',
                      row_file_path = ''notes/f.txt'', row_chunk_index = 0\<rparr>], calls = 3\<rparr>)"
    using whole unfolding r2 w2 by simp
  from batch_before_outage r c outage_second_call batch_after_outage final
  show ?thesis by blast
qed

text \<open>
  Claim C4 as stated fails: with a provider that is unreachable at the call for the
  first file only, \<open>index_files\<close> returns an aggregate instead of raising, and the
  second file of the batch is indexed: its row is in the table.
\<close>

theorem embedding_outage_batch_continues_counterexample:
  "embeddings_create (memory_env notes_files outage_provider) 0 [''alpha''] = Inl ExternalFailure
   \<and> index_files (memory_env notes_files outage_provider) [''notes/a.md'', ''notes/b.md'']
       (Some [''id1'', ''id2'']) \<lparr>table = None, calls = 0\<rparr>
     = (Inr \<lparr>total = 2, success = 1, failed = 1, failed_files = [''notes/a.md'']\<rparr>,
        \<lparr>table = Some [\<lparr>row_vector = [1], row_text = ''beta'', row_file_id = ''id2'',
                        row_file_path = ''notes/b.md'', row_chunk_index = 0\<rparr>],
         calls = 2\<rparr>)"
  using outage_first_call outage_batch by blast

section \<open>Removing a file from the index, and searching\<close>

lemma filter_id_le_one:
  "distinct (map fs_id db) \<Longrightarrow> length (filter (\<lambda>r. fs_id r = i) db) \<le> 1"
proof (induction db)
  case Nil
  show ?case by simp
next
  case (Cons a db)
  show ?case
  proof (cases "fs_id a = i")
    case True
    from Cons.prems have "fs_id a \<notin> fs_id ` set db" by simp
    with True have "\<forall>r \<in> set db. fs_id r \<noteq> i" by blast
    then have "filter (\<lambda>r. fs_id r = i) db = []" by (simp add: filter_empty_conv)
    with True show ?thesis by simp
  next
    case False
    with Cons show ?thesis by simp
  qed
qed

lemma get_file_status_distinct:
  assumes "distinct (map fs_id db)"
  shows "get_file_status db i = Inr None \<or> (\<exists>r. get_file_status db i = Inr (Some r))"
proof -
  from assms have "length (filter (\<lambda>r. fs_id r = i) db) \<le> 1" by (rule filter_id_le_one)
  then show ?thesis
    by (cases "filter (\<lambda>r. fs_id r = i) db" rule: scalar_one_or_none.cases)
      (auto simp: get_file_status_def)
qed

lemma update_file_status_absent:
  "get_file_status db i = Inr None \<Longrightarrow> update_file_status db i s = db"
proof -
  assume "get_file_status db i = Inr None"
  then have "filter (\<lambda>r. fs_id r = i) db = []"
    by (simp add: get_file_status_def scalar_one_or_none_None)
  then have "\<forall>r \<in> set db. fs_id r \<noteq> i" by (simp add: filter_empty_conv)
  then show ?thesis by (simp add: update_file_status_def map_idI)
qed

lemma update_file_status_twice:
  "update_file_status (update_file_status db i s) i s = update_file_status db i s"
  by (induction db) (auto simp: update_file_status_def)

lemma delete_from_index_no_table:
  "table w = None \<Longrightarrow> delete_file_from_index env file_id w = (False, w)"
  by (simp add: delete_file_from_index_def)

lemma delete_from_index_done:
  assumes "table w = Some rows"
    and "table_delete env True (''file_id = '' @ [CHR 0x27] @ file_id @ [CHR 0x27]) rows = Inr rows'"
  shows "delete_file_from_index env file_id w = (True, w\<lparr>table := Some rows'\<rparr>)"
  using assms by (simp add: delete_file_from_index_def)

lemma delete_indexed_file_done:
  assumes "distinct (map fs_id db)"
    and "delete_file_from_index env file_id w = (True, w')"
  shows "delete_indexed_file env file_id w db
           = (Deleted file_id, w', update_file_status db file_id PENDING)"
  using get_file_status_distinct [OF assms(1), of file_id] assms(2)
  by (auto simp: delete_indexed_file_def update_file_status_absent)

text \<open>
  Claim C6 (as amended). Removing a file from the index answers "deleted" whenever the
  index table exists and the store carries out the delete, whether or not the table
  holds rows of that file id: a second call after a first removal answers "deleted"
  again and leaves the status at \<open>PENDING\<close>. When the table does not exist,
  \<open>delete_file_from_index\<close> returns \<open>False\<close> and the answer is not "deleted".
\<close>

theorem delete_indexed_file_twice:
  "(table w0 = None \<longrightarrow>
      delete_file_from_index env file_id w0 = (False, w0)
      \<and> fst (delete_indexed_file env file_id w0 db) \<noteq> Deleted file_id)
   \<and> (distinct (map fs_id db) \<and> table w = Some rows
       \<and> table_delete env True (''file_id = '' @ [CHR 0x27] @ file_id @ [CHR 0x27]) rows = Inr rows1
       \<and> table_delete env True (''file_id = '' @ [CHR 0x27] @ file_id @ [CHR 0x27]) rows1 = Inr rows2
      \<longrightarrow>
      delete_indexed_file env file_id w db
        = (Deleted file_id, w\<lparr>table := Some rows1\<rparr>, update_file_status db file_id PENDING)
      \<and> delete_indexed_file env file_id (w\<lparr>table := Some rows1\<rparr>)
            (update_file_status db file_id PENDING)
        = (Deleted file_id, w\<lparr>table := Some rows2\<rparr>, update_file_status db file_id PENDING))"
proof -
  have a: "delete_file_from_index env file_id w0 = (False, w0)
      \<and> fst (delete_indexed_file env file_id w0 db) \<noteq> Deleted file_id" if "table w0 = None"
    using that by (simp add: delete_from_index_no_table delete_indexed_file_def)
  have b: "delete_indexed_file env file_id w db
        = (Deleted file_id, w\<lparr>table := Some rows1\<rparr>, update_file_status db file_id PENDING)
      \<and> delete_indexed_file env file_id (w\<lparr>table := Some rows1\<rparr>)
            (update_file_status db file_id PENDING)
        = (Deleted file_id, w\<lparr>table := Some rows2\<rparr>, update_file_status db file_id PENDING)"
    if d: "distinct (map fs_id db)" and t: "table w = Some rows"
      and r1: "table_delete env True (''file_id = '' @ [CHR 0x27] @ file_id @ [CHR 0x27]) rows = Inr rows1"
      and r2: "table_delete env True (''file_id = '' @ [CHR 0x27] @ file_id @ [CHR 0x27]) rows1 = Inr rows2"
  proof -
    have first: "delete_file_from_index env file_id w = (True, w\<lparr>table := Some rows1\<rparr>)"
      using t r1 by (rule delete_from_index_done)
    have "table (w\<lparr>table := Some rows1\<rparr>) = Some rows1" by simp
    then have "delete_file_from_index env file_id (w\<lparr>table := Some rows1\<rparr>)
        = (True, w\<lparr>table := Some rows1\<rparr>\<lparr>table := Some rows2\<rparr>)"
      using r2 by (rule delete_from_index_done)
    then have second: "delete_file_from_index env file_id (w\<lparr>table := Some rows1\<rparr>)
        = (True, w\<lparr>table := Some rows2\<rparr>)" by simp
    have d': "distinct (map fs_id (update_file_status db file_id PENDING))"
      using d by (simp add: ids_update_status)
    show ?thesis
      using delete_indexed_file_done [OF d first] delete_indexed_file_done [OF d' second]
      by (simp add: update_file_status_twice)
  qed
  show ?thesis using a b by blast
qed

theorem delete_indexed_file_twice_witness:
  "distinct (map fs_id [\<lparr>fs_id = ''id1'', fs_name = ''a.md'', fs_path = ''notes/a.md'', fs_status = SYNCED\<rparr>])
   \<and> table_delete (memory_env notes_files unit_provider) True
       (''file_id = '' @ [CHR 0x27] @ ''id1'' @ [CHR 0x27])
       [\<lparr>row_vector = [1], row_text = ''alpha'', row_file_id = ''id1'',
         row_file_path = ''notes/a.md'', row_chunk_index = 0\<rparr>] = Inr []
   \<and> table_delete (memory_env notes_files unit_provider) True
       (''file_id = '' @ [CHR 0x27] @ ''id1'' @ [CHR 0x27]) [] = Inr []
   \<and> delete_indexed_file (memory_env notes_files unit_provider) ''id1''
       \<lparr>table = Some [\<lparr>row_vector = [1], row_text = ''alpha'', row_file_id = ''id1'',
                       row_file_path = ''notes/a.md'', row_chunk_index = 0\<rparr>], calls = 1\<rparr>
       [\<lparr>fs_id = ''id1'', fs_name = ''a.md'', fs_path = ''notes/a.md'', fs_status = SYNCED\<rparr>]
     = (Deleted ''id1'', \<lparr>table = Some [], calls = 1\<rparr>,
        [\<lparr>fs_id = ''id1'', fs_name = ''a.md'', fs_path = ''notes/a.md'', fs_status = PENDING\<rparr>])
   \<and> delete_indexed_file (memory_env notes_files unit_provider) ''id1''
       \<lparr>table = Some [], calls = 1\<rparr>
       [\<lparr>fs_id = ''id1'', fs_name = ''a.md'', fs_path = ''notes/a.md'', fs_status = PENDING\<rparr>]
     = (Deleted ''id1'', \<lparr>table = Some [], calls = 1\<rparr>,
        [\<lparr>fs_id = ''id1'', fs_name = ''a.md'', fs_path = ''notes/a.md'', fs_status = PENDING\<rparr>])"
proof -
  let ?row = "\<lparr>row_vector = [1], row_text = ''alpha'', row_file_id = ''id1'',
               row_file_path = ''notes/a.md'', row_chunk_index = 0\<rparr>"
  let ?db = "[\<lparr>fs_id = ''id1'', fs_name = ''a.md'', fs_path = ''notes/a.md'', fs_status = SYNCED\<rparr>]"
  let ?w = "\<lparr>table = Some [?row], calls = 1\<rparr>"
  have d: "distinct (map fs_id ?db)" by simp
  have t: "table ?w = Some [?row]" by simp
  have u: "update_file_status ?db ''id1'' PENDING
      = [\<lparr>fs_id = ''id1'', fs_name = ''a.md'', fs_path = ''notes/a.md'', fs_status = PENDING\<rparr>]"
    by (simp add: update_file_status_def)
  have w1: "?w\<lparr>table := Some []\<rparr> = \<lparr>table = Some [], calls = 1\<rparr>" by simp
  from delete_indexed_file_twice
    [where env = "memory_env notes_files unit_provider" and file_id = "''id1''" and db = ?db
      and w = ?w and rows = "[?row]" and ?rows1.0 = "[]" and ?rows2.0 = "[]"]
    d t memory_delete_id1 memory_delete_empty
  have "delete_indexed_file (memory_env notes_files unit_provider) ''id1'' ?w ?db
        = (Deleted ''id1'', ?w\<lparr>table := Some []\<rparr>, update_file_status ?db ''id1'' PENDING)
      \<and> delete_indexed_file (memory_env notes_files unit_provider) ''id1'' (?w\<lparr>table := Some []\<rparr>)
            (update_file_status ?db ''id1'' PENDING)
        = (Deleted ''id1'', ?w\<lparr>table := Some []\<rparr>, update_file_status ?db ''id1'' PENDING)"
    by blast
  then show ?thesis
    unfolding u w1 using d memory_delete_id1 memory_delete_empty by blast
qed

text \<open>
  Claim C6 as stated fails: the second removal of a file answers "deleted", not
  not-found, and so does the removal of a file id the index never held rows of.
\<close>

theorem delete_indexed_file_second_call_counterexample:
  "delete_indexed_file (memory_env notes_files unit_provider) ''id1''
     \<lparr>table = Some [\<lparr>row_vector = [1], row_text = ''alpha'', row_file_id = ''id1'',
                     row_file_path = ''notes/a.md'', row_chunk_index = 0\<rparr>], calls = 1\<rparr>
     [\<lparr>fs_id = ''id1'', fs_name = ''a.md'', fs_path = ''notes/a.md'', fs_status = SYNCED\<rparr>]
   = (Deleted ''id1'', \<lparr>table = Some [], calls = 1\<rparr>,
      [\<lparr>fs_id = ''id1'', fs_name = ''a.md'', fs_path = ''notes/a.md'', fs_status = PENDING\<rparr>])
   \<and> delete_indexed_file (memory_env notes_files unit_provider) ''id1''
     \<lparr>table = Some [], calls = 1\<rparr>
     [\<lparr>fs_id = ''id1'', fs_name = ''a.md'', fs_path = ''notes/a.md'', fs_status = PENDING\<rparr>]
   = (Deleted ''id1'', \<lparr>table = Some [], calls = 1\<rparr>,
      [\<lparr>fs_id = ''id1'', fs_name = ''a.md'', fs_path = ''notes/a.md'', fs_status = PENDING\<rparr>])
   \<and> fst (delete_indexed_file (memory_env notes_files unit_provider) ''id1''
     \<lparr>table = Some [], calls = 1\<rparr>
     [\<lparr>fs_id = ''id1'', fs_name = ''a.md'', fs_path = ''notes/a.md'', fs_status = PENDING\<rparr>])
     \<noteq> HTTPException 404
   \<and> fst (delete_indexed_file (memory_env notes_files unit_provider) ''id9''
     \<lparr>table = Some [\<lparr>row_vector = [1], row_text = ''alpha'', row_file_id = ''id1'',
                     row_file_path = ''notes/a.md'', row_chunk_index = 0\<rparr>], calls = 1\<rparr>
     [\<lparr>fs_id = ''id1'', fs_name = ''a.md'', fs_path = ''notes/a.md'', fs_status = SYNCED\<rparr>])
     = Deleted ''id9''"
  using remove_first remove_second remove_never_indexed by simp

lemma search_similar_cases:
  "fst (search_similar env query limit w) = []
   \<or> (\<exists>q rows results. table_search env q limit rows = Inr results
        \<and> table w = Some rows
        \<and> fst (search_similar env query limit w)
            = map (\<lambda>(row, distance).
                    \<lparr>res_text = row_text row, res_file_path = row_file_path row,
                     res_file_id = row_file_id row, res_chunk_index = row_chunk_index row,
                     res_score = distance\<rparr>) results)"
  by (auto simp: search_similar_def create_embeddings_def
      split: sum.splits list.splits option.splits)

lemma scores_of_results:
  "map res_score (map (\<lambda>(row, distance).
                    \<lparr>res_text = row_text row, res_file_path = row_file_path row,
                     res_file_id = row_file_id row, res_chunk_index = row_chunk_index row,
                     res_score = distance\<rparr>) results) = map snd results"
  by (induction results) auto

lemma memory_search_contract:
  assumes "memory_search q limit rows = Inr results"
  shows "length results \<le> nat limit \<and> sorted (map snd results)"
proof -
  from assms have r: "results = take (nat limit)
      (sort_key snd (map (\<lambda>r. (r, l2_distance q (row_vector r))) rows))"
    by (simp add: memory_search_def)
  have "sorted (map snd (sort_key snd (map (\<lambda>r. (r, l2_distance q (row_vector r))) rows)))"
    by (rule sorted_sort_key)
  then have "sorted (take (nat limit)
      (map snd (sort_key snd (map (\<lambda>r. (r, l2_distance q (row_vector r))) rows))))"
    by (rule sorted_wrt_take)
  then show ?thesis by (simp add: r take_map)
qed

text \<open>
  Claim C8. Provided the vector store's search answers a limit \<open>k\<close> with at most
  \<open>k\<close> rows in ascending order of distance, \<open>search_similar\<close> returns at most
  \<open>k\<close> results with non-decreasing scores; and whatever the store does, it returns
  the empty list, not an error, when the table does not exist.
\<close>

theorem search_similar_limit_sorted:
  assumes "\<And>q rows results. table_search env q limit rows = Inr results \<Longrightarrow>
             length results \<le> nat limit \<and> sorted (map snd results)"
  shows "length (fst (search_similar env query limit w)) \<le> nat limit
       \<and> sorted (map res_score (fst (search_similar env query limit w)))
       \<and> (table w = None \<longrightarrow> fst (search_similar env query limit w) = [])"
proof -
  have none: "fst (search_similar env query limit w) = []" if "table w = None"
    using that
    by (auto simp: search_similar_def create_embeddings_def
        split: sum.splits list.splits option.splits)
  from search_similar_cases [of env query limit w]
  have "length (fst (search_similar env query limit w)) \<le> nat limit
       \<and> sorted (map res_score (fst (search_similar env query limit w)))"
  proof
    assume "fst (search_similar env query limit w) = []"
    then show ?thesis by simp
  next
    assume "\<exists>q rows results. table_search env q limit rows = Inr results
        \<and> table w = Some rows
        \<and> fst (search_similar env query limit w)
            = map (\<lambda>(row, distance).
                    \<lparr>res_text = row_text row, res_file_path = row_file_path row,
                     res_file_id = row_file_id row, res_chunk_index = row_chunk_index row,
                     res_score = distance\<rparr>) results"
    then obtain q rows results where s: "table_search env q limit rows = Inr results"
      and r: "fst (search_similar env query limit w)
            = map (\<lambda>(row, distance).
                    \<lparr>res_text = row_text row, res_file_path = row_file_path row,
                     res_file_id = row_file_id row, res_chunk_index = row_chunk_index row,
                     res_score = distance\<rparr>) results"
      by blast
    from assms [OF s] show ?thesis by (simp only: r scores_of_results length_map)
  qed
  with none show ?thesis by simp
qed

theorem search_similar_limit_sorted_witness:
  "fst (search_similar (memory_env notes_files unit_provider) ''query'' 2
     \<lparr>table = Some [\<lparr>row_vector = [3], row_text = ''far'', row_file_id = ''id2'',
                     row_file_path = ''notes/b.md'', row_chunk_index = 0\<rparr>,
                    \<lparr>row_vector = [0], row_text = ''near'', row_file_id = ''id1'',
                     row_file_path = ''notes/a.md'', row_chunk_index = 0\<rparr>], calls = 0\<rparr>)
   = [\<lparr>res_text = ''near'', res_file_path = ''notes/a.md'', res_file_id = ''id1'',
       res_chunk_index = 0, res_score = 1\<rparr>,
      \<lparr>res_text = ''far'', res_file_path = ''notes/b.md'', res_file_id = ''id2'',
       res_chunk_index = 0, res_score = 4\<rparr>]
   \<and> length (fst (search_similar (memory_env notes_files unit_provider) ''query'' 2
     \<lparr>table = Some [\<lparr>row_vector = [3], row_text = ''far'', row_file_id = ''id2'',
                     row_file_path = ''notes/b.md'', row_chunk_index = 0\<rparr>,
                    \<lparr>row_vector = [0], row_text = ''near'', row_file_id = ''id1'',
                     row_file_path = ''notes/a.md'', row_chunk_index = 0\<rparr>], calls = 0\<rparr>)) \<le> nat 2
   \<and> sorted (map res_score (fst (search_similar (memory_env notes_files unit_provider) ''query'' 2
     \<lparr>table = Some [\<lparr>row_vector = [3], row_text = ''far'', row_file_id = ''id2'',
                     row_file_path = ''notes/b.md'', row_chunk_index = 0\<rparr>,
                    \<lparr>row_vector = [0], row_text = ''near'', row_file_id = ''id1'',
                     row_file_path = ''notes/a.md'', row_chunk_index = 0\<rparr>], calls = 0\<rparr>)))
   \<and> fst (search_similar (memory_env notes_files unit_provider) ''query'' 2
        \<lparr>table = None, calls = 0\<rparr>) = []"
proof -
  have contract: "length results \<le> nat 2 \<and> sorted (map snd results)"
    if "table_search (memory_env notes_files unit_provider) q 2 rows = Inr results"
    for q rows results
    using that memory_search_contract [of q 2 rows results] by (simp add: memory_env_def)
  have g: "length (fst (search_similar (memory_env notes_files unit_provider) query 2 w)) \<le> nat 2
       \<and> sorted (map res_score (fst (search_similar (memory_env notes_files unit_provider) query 2 w)))
       \<and> (table w = None \<longrightarrow> fst (search_similar (memory_env notes_files unit_provider) query 2 w) = [])"
    for query w
    by (rule search_similar_limit_sorted) (erule contract)
  have "fst (search_similar (memory_env notes_files unit_provider) ''query'' 2
        \<lparr>table = None, calls = 0\<rparr>) = []"
    using g [of "''query''" "\<lparr>table = None, calls = 0\<rparr>"] by simp
  with search_two_rows g show ?thesis by blast
qed

end
